theory Spec2Isabelle
  imports Main "HOL-Library.Sublist"
begin

section \<open>Go strings\<close>

text \<open>
  A Go string is a sequence of bytes; \<^typ>\<open>string\<close> (a list of 8-bit characters) is
  exactly that. The functions of package \<open>strings\<close> that the repository calls are
  written out below on bytes, following the standard library's own code.
\<close>

definition isASCIIbyte :: "char \<Rightarrow> bool" where
  \<comment> \<open>\<open>c < utf8.RuneSelf\<close>\<close>
  "isASCIIbyte c = ((of_char c :: nat) < 128)"

definition isUpperASCII :: "char \<Rightarrow> bool" where
  \<comment> \<open>\<open>'A' <= c && c <= 'Z'\<close>\<close>
  "isUpperASCII c = (65 \<le> (of_char c :: nat) \<and> (of_char c :: nat) \<le> 90)"

definition lowerByte :: "char \<Rightarrow> char" where
  \<comment> \<open>\<open>if 'A' <= c && c <= 'Z' { c += 'a' - 'A' }\<close>\<close>
  "lowerByte c = (if isUpperASCII c then char_of ((of_char c :: nat) + 32) else c)"

definition HasPrefix :: "string \<Rightarrow> string \<Rightarrow> bool" where
  \<comment> \<open>\<open>len(s) >= len(prefix) && s[:len(prefix)] == prefix\<close>\<close>
  "HasPrefix s pre = (length s \<ge> length pre \<and> take (length pre) s = pre)"

definition HasSuffix :: "string \<Rightarrow> string \<Rightarrow> bool" where
  \<comment> \<open>\<open>len(s) >= len(suffix) && s[len(s)-len(suffix):] == suffix\<close>\<close>
  "HasSuffix s suf = (length s \<ge> length suf \<and> drop (length s - length suf) s = suf)"

definition TrimSuffix :: "string \<Rightarrow> string \<Rightarrow> string" where
  "TrimSuffix s suf = (if HasSuffix s suf then take (length s - length suf) s else s)"

fun Contains :: "string \<Rightarrow> string \<Rightarrow> bool" where
  \<comment> \<open>\<open>strings.Contains(s, substr)\<close>: some position of \<open>s\<close> starts a copy of \<open>substr\<close>\<close>
  "Contains [] sub = (sub = [])"
| "Contains (c # cs) sub = (HasPrefix (c # cs) sub \<or> Contains cs sub)"

text \<open>
  \<open>strings.ToLower\<close> and \<open>strings.EqualFold\<close> have an ASCII fast path, which is
  modelled in full, and fall back to the Unicode tables as soon as a byte of
  \<open>0x80\<close> or more shows up. The tables belong to the Go runtime, not to this
  repository: they are a parameter of the model.
\<close>

record unicode =
  lowerNonASCII :: "string \<Rightarrow> string"
    \<comment> \<open>\<open>strings.Map(unicode.ToLower, s)\<close> for an \<open>s\<close> holding a non-ASCII byte\<close>
  foldNonASCII :: "string \<Rightarrow> string \<Rightarrow> bool"
    \<comment> \<open>the \<open>hasUnicode\<close> part of \<open>strings.EqualFold\<close>, on the two remainders\<close>

definition ToLower :: "unicode \<Rightarrow> string \<Rightarrow> string" where
  "ToLower U s = (if list_all isASCIIbyte s then map lowerByte s else lowerNonASCII U s)"

fun EqualFold :: "unicode \<Rightarrow> string \<Rightarrow> string \<Rightarrow> bool" where
  "EqualFold U [] [] = True"
| "EqualFold U [] (tr # t) = False"
| "EqualFold U (sr # s) [] = False"
| "EqualFold U (sr # s) (tr # t) =
     (if \<not> isASCIIbyte sr \<or> \<not> isASCIIbyte tr then foldNonASCII U (sr # s) (tr # t)
      else if tr = sr then EqualFold U s t
      else
        (let (lo, hi) = (if (of_char tr :: nat) < of_char sr then (tr, sr) else (sr, tr))
         in if isUpperASCII lo \<and> (of_char hi :: nat) = of_char lo + 32 then EqualFold U s t
            else False))"

text \<open>Decimal rendering of an integer, as \<open>%d\<close> and \<open>%v\<close> print it.\<close>

fun digits :: "nat \<Rightarrow> string" where
  "digits n = (if n < 10 then [char_of (48 + n)]
               else digits (n div 10) @ [char_of (48 + n mod 10)])"

declare digits.simps [simp del]

definition showInt :: "int \<Rightarrow> string" where
  "showInt i = (if i < 0 then CHR ''-'' # digits (nat (- i)) else digits (nat i))"


section \<open>Package core: the risk scale and the skill\<close>

text \<open>
  \<open>type RiskLevel int\<close> with four constants numbered by \<open>iota\<close>. The type is an
  integer: a value outside the four constants is representable (\<open>String\<close> has a
  branch for it), so the model keeps the integer. Risk levels are only compared,
  never computed with, so the width of Go's \<open>int\<close> plays no role.
\<close>

type_synonym RiskLevel = int

definition RiskLow :: RiskLevel where "RiskLow = 0"
definition RiskMedium :: RiskLevel where "RiskMedium = 1"
definition RiskHigh :: RiskLevel where "RiskHigh = 2"
definition RiskCritical :: RiskLevel where "RiskCritical = 3"

definition RiskLevel_String :: "RiskLevel \<Rightarrow> string" where
  "RiskLevel_String r =
     (if r = RiskLow then ''LOW''
      else if r = RiskMedium then ''MEDIUM''
      else if r = RiskHigh then ''HIGH''
      else if r = RiskCritical then ''CRITICAL''
      else ''UNKNOWN'')"

text \<open>A Go \<open>error\<close> is kept by its message; \<open>nil\<close> is \<open>None\<close>.\<close>

type_synonym error = string

definition ParseRiskLevel :: "string \<Rightarrow> RiskLevel \<times> error option" where
  "ParseRiskLevel s =
     (if s = ''LOW'' then (RiskLow, None)
      else if s = ''MEDIUM'' then (RiskMedium, None)
      else if s = ''HIGH'' then (RiskHigh, None)
      else if s = ''CRITICAL'' then (RiskCritical, None)
      else (RiskLow, Some (''unknown risk level: '' @ s)))"

type_synonym Provider = string
type_synonym SkillCategory = string
type_synonym ExecutionType = string

text \<open>A \<open>time.Duration\<close> is a number of nanoseconds.\<close>

type_synonym Duration = int

record SkillInput =
  Name :: string
  Type :: string
  Required :: bool
  Description :: string
  Default :: string

record SkillOutput =
  Name :: string
  Type :: string
  Description :: string

record ExecutionConfig =
  Type :: ExecutionType
  Command :: string
  Timeout :: Duration

record RollbackConfig =
  Supported :: bool
  Procedure :: string

record Skill =
  Name :: string
  Description :: string
  Provider :: Provider
  Category :: SkillCategory
  Inputs :: "SkillInput list"
  Outputs :: "SkillOutput list"
  RiskLevel :: RiskLevel
  RequiresConfirmation :: bool
  Execution :: ExecutionConfig
  Rollback :: RollbackConfig

text \<open>
  The parameters of a request are a \<open>map[string]interface{}\<close>. The code under
  study looks at a value in three ways only: the type assertions \<open>.(int)\<close> and
  \<open>.(bool)\<close>, and printing with \<open>%v\<close>. A value of any other dynamic type is
  therefore kept by what \<open>%v\<close> prints for it. A \<open>nil\<close> map reads like the empty
  map, and the code only reads.
\<close>

datatype any = VBool bool | VInt int | VString string | VOther string

type_synonym Params = "string \<rightharpoonup> any"

fun formatV :: "any \<Rightarrow> string" where
  \<comment> \<open>\<open>fmt.Sprintf("%v", val)\<close>\<close>
  "formatV (VBool b) = (if b then ''true'' else ''false'')"
| "formatV (VInt i) = showInt i"
| "formatV (VString s) = s"
| "formatV (VOther r) = r"

record SafetyReport =
  SkillName :: string
  RiskLevel :: RiskLevel
  BlastRadius :: int
  AffectedResources :: "string list"
  RequiresConfirmation :: bool
  ConfirmationPrompt :: string
  RollbackAvailable :: bool
  RollbackProcedure :: string
  DryRunRecommended :: bool
  EnvironmentWarning :: string


section \<open>Package safety\<close>

text \<open>
  \<open>Layer\<close> is an empty struct and its methods never read the receiver, so the
  methods are functions of their arguments. Those that fold case take the Unicode
  tables.
\<close>

definition Layer_RequiresConfirmation :: "RiskLevel \<Rightarrow> bool" where
  "Layer_RequiresConfirmation riskLevel = (riskLevel \<ge> RiskMedium)"

definition getConfirmationPrompt :: "RiskLevel \<Rightarrow> string" where
  "getConfirmationPrompt riskLevel =
     (if riskLevel = RiskLow then ''''
      else if riskLevel = RiskMedium then ''Type \"yes\" to proceed or \"cancel\" to abort''
      else if riskLevel = RiskHigh then ''Type \"yes, apply\" to proceed or \"cancel\" to abort''
      else if riskLevel = RiskCritical
        then ''Type \"CONFIRM PRODUCTION\" to proceed or \"cancel\" to abort''
      else ''Type \"yes\" to proceed'')"

definition estimateFromParam :: "Params \<Rightarrow> string \<Rightarrow> int \<Rightarrow> int" where
  "estimateFromParam params key fallback =
     (case params key of
        Some (VInt v) \<Rightarrow> v
      | _ \<Rightarrow> fallback)"

definition estimateBlastRadius :: "Skill \<Rightarrow> Params \<Rightarrow> int" where
  "estimateBlastRadius skill params =
     (if Contains (Skill.Name skill) ''.list'' \<or> Contains (Skill.Name skill) ''.audit'' \<or>
         Contains (Skill.Name skill) ''.query'' \<or> Contains (Skill.Name skill) ''.report'' \<or>
         Contains (Skill.Name skill) ''.status'' \<or> Contains (Skill.Name skill) ''.snapshot''
        then 0
      else if Contains (Skill.Name skill) ''.deploy'' \<or> Contains (Skill.Name skill) ''.upgrade''
        then 1
      else if Contains (Skill.Name skill) ''.scale''
        then estimateFromParam params ''desired_capacity'' 1
      else if Contains (Skill.Name skill) ''terraform.apply''
        then estimateFromParam params ''resources_count'' 5
      else if Contains (Skill.Name skill) ''.sync'' \<or> Contains (Skill.Name skill) ''.migrate''
        then 10
      else 1)"

definition resourceKeys :: "string list" where
  "resourceKeys = [''instance_id'', ''bucket_name'', ''vpc_id'', ''deployment'',
     ''function_name'', ''asg_name'', ''secret_id'', ''release_name'', ''app_name'',
     ''vm_name'', ''zone'', ''image'']"

definition identifyAffectedResources :: "Skill \<Rightarrow> Params \<Rightarrow> string list" where
  "identifyAffectedResources skill params =
     (Skill.Provider skill @ ''/'' @ Skill.Category skill @ '' resources'') #
     concat (map (\<lambda>key. case params key of
                          Some val \<Rightarrow> [key @ ''='' @ formatV val]
                        | None \<Rightarrow> []) resourceKeys)"

definition isProductionEnvironment :: "unicode \<Rightarrow> string \<Rightarrow> bool" where
  "isProductionEnvironment U env =
     (let env = ToLower U env
      in env = ''production'' \<or> env = ''prod'' \<or> env = ''prd'')"

definition destructiveKeywords :: "string list" where
  "destructiveKeywords = [''apply'', ''deploy'', ''scale'', ''resize'', ''delete'',
     ''rotate'', ''sync'', ''migrate'', ''update'', ''upgrade'', ''rollback'']"

definition Layer_shouldDryRun :: "unicode \<Rightarrow> Skill \<Rightarrow> bool" where
  "Layer_shouldDryRun U skill =
     list_ex (\<lambda>keyword. Contains (ToLower U (Skill.Name skill)) keyword) destructiveKeywords"

definition productionWarning :: string where
  \<comment> \<open>the UTF-8 bytes of the warning sign, a variation selector and a dash, around the text\<close>
  "productionWarning =
     [CHR 0xE2, CHR 0x9A, CHR 0xA0, CHR 0xEF, CHR 0xB8, CHR 0x8F] @
     ''  TARGET ENVIRONMENT IS PRODUCTION '' @
     [CHR 0xE2, CHR 0x80, CHR 0x94] @ '' exercise extreme caution''"

definition Layer_Evaluate :: "unicode \<Rightarrow> Skill \<Rightarrow> Params \<Rightarrow> string \<Rightarrow> SafetyReport" where
  "Layer_Evaluate U skill params env =
     (let report = \<lparr> SafetyReport.SkillName = Skill.Name skill,
                     SafetyReport.RiskLevel = Skill.RiskLevel skill,
                     SafetyReport.BlastRadius = 0,
                     SafetyReport.AffectedResources = [],
                     SafetyReport.RequiresConfirmation = Skill.RequiresConfirmation skill,
                     SafetyReport.ConfirmationPrompt = '''',
                     SafetyReport.RollbackAvailable = Supported (Skill.Rollback skill),
                     SafetyReport.RollbackProcedure = Procedure (Skill.Rollback skill),
                     SafetyReport.DryRunRecommended = False,
                     SafetyReport.EnvironmentWarning = '''' \<rparr>;
          report = report \<lparr> SafetyReport.BlastRadius := estimateBlastRadius skill params \<rparr>;
          report = report \<lparr> SafetyReport.AffectedResources :=
                                identifyAffectedResources skill params \<rparr>;
          report =
            (if isProductionEnvironment U env
             then (let report = report \<lparr> SafetyReport.EnvironmentWarning := productionWarning \<rparr>;
                       report = (if SafetyReport.RiskLevel report < RiskHigh
                                 then report \<lparr> SafetyReport.RiskLevel := RiskHigh \<rparr>
                                 else report)
                   in report \<lparr> SafetyReport.RequiresConfirmation := True \<rparr>)
             else report);
          report = report \<lparr> SafetyReport.DryRunRecommended := Layer_shouldDryRun U skill \<rparr>
      in report \<lparr> SafetyReport.ConfirmationPrompt :=
                     getConfirmationPrompt (SafetyReport.RiskLevel report) \<rparr>)"


section \<open>Package policy\<close>

type_synonym EnforcementLevel = string

definition EnforcementWarn :: EnforcementLevel where "EnforcementWarn = ''warn''"
definition EnforcementDeny :: EnforcementLevel where "EnforcementDeny = ''deny''"

type_synonym Severity = string

definition SeverityInfo :: Severity where "SeverityInfo = ''INFO''"
definition SeverityWarning :: Severity where "SeverityWarning = ''WARNING''"
definition SeverityCritical :: Severity where "SeverityCritical = ''CRITICAL''"

text \<open>
  An instant of the wall clock (\<open>time.Time\<close>), in nanoseconds. A check function is
  a Go closure: besides its three arguments it may read the clock, as the built-in
  deploy-window rule does, so it receives the reading. One evaluation is taken to
  see one reading of the clock. Every registered policy carries its check function,
  as the built-in rules and the tests have it, and the function returns: a policy
  with a nil function, or a check that panics, stops the Go program at the call and
  is not a policy of the model.
\<close>

type_synonym Time = int

type_synonym PolicyCheckFunc = "Time \<Rightarrow> Skill \<Rightarrow> Params \<Rightarrow> string \<Rightarrow> bool \<times> string"

record Policy =
  Name :: string
  Description :: string
  Enforcement :: EnforcementLevel
  Severity :: Severity
  AppliesTo :: "string list"
  Environments :: "string list"
  CheckFunc :: PolicyCheckFunc

record Violation =
  PolicyName :: string
  Description :: string
  Severity :: Severity
  Enforcement :: EnforcementLevel
  Reason :: string
  SkillName :: string
  Environment :: string
  Timestamp :: Time

record EvaluationResult =
  Passed :: bool
  Violations :: "Violation list"
  Warnings :: "Violation list"
  Denied :: bool

record policy_Engine =
  policies :: "Policy list"
  enforcementMode :: EnforcementLevel

definition policy_NewEngine :: "EnforcementLevel \<Rightarrow> policy_Engine" where
  "policy_NewEngine mode = \<lparr> policies = [], enforcementMode = mode \<rparr>"

definition Register :: "policy_Engine \<Rightarrow> Policy \<Rightarrow> policy_Engine" where
  "Register e policy = e \<lparr> policies := policies e @ [policy] \<rparr>"

definition matchSkillPattern :: "string \<Rightarrow> string \<Rightarrow> bool" where
  "matchSkillPattern skillName pattern =
     (if pattern = ''*'' then True
      else if HasSuffix pattern ''.*''
        then HasPrefix skillName (TrimSuffix pattern ''.*'' @ ''.'')
      else if HasSuffix pattern ''*''
        then HasPrefix skillName (TrimSuffix pattern ''*'')
      else skillName = pattern)"

definition policyApplies :: "unicode \<Rightarrow> Policy \<Rightarrow> Skill \<Rightarrow> string \<Rightarrow> bool" where
  "policyApplies U policy skill env =
     (if length (AppliesTo policy) > 0 \<and>
         \<not> list_ex (\<lambda>pattern. matchSkillPattern (Skill.Name skill) pattern) (AppliesTo policy)
        then False
      else if length (Environments policy) > 0 \<and>
         \<not> list_ex (\<lambda>e. EqualFold U e env) (Environments policy)
        then False
      else True)"

text \<open>The body of the loop of \<open>Evaluate\<close>, for one policy, on the result so far.\<close>

definition Evaluate_step ::
  "unicode \<Rightarrow> policy_Engine \<Rightarrow> Time \<Rightarrow> Skill \<Rightarrow> Params \<Rightarrow> string \<Rightarrow>
   EvaluationResult \<Rightarrow> Policy \<Rightarrow> EvaluationResult" where
  "Evaluate_step U e now skill params env result policy =
     (if \<not> policyApplies U policy skill env then result
      else
        (let (violated, reason) = CheckFunc policy now skill params env
         in if \<not> violated then result
            else
              (let v = \<lparr> PolicyName = Policy.Name policy,
                         Violation.Description = Policy.Description policy,
                         Violation.Severity = Policy.Severity policy,
                         Violation.Enforcement = Policy.Enforcement policy,
                         Reason = reason,
                         Violation.SkillName = Skill.Name skill,
                         Environment = env,
                         Timestamp = now \<rparr>;
                   effectiveEnforcement =
                     (if enforcementMode e = EnforcementDeny then EnforcementDeny
                      else if enforcementMode e = EnforcementWarn then EnforcementWarn
                      else Policy.Enforcement policy)
               in if effectiveEnforcement = EnforcementDeny
                  then result \<lparr> Violations := Violations result @ [v],
                                Passed := False, Denied := True \<rparr>
                  else result \<lparr> Warnings := Warnings result @ [v] \<rparr>)))"

definition policy_Evaluate ::
  "unicode \<Rightarrow> policy_Engine \<Rightarrow> Time \<Rightarrow> Skill \<Rightarrow> Params \<Rightarrow> string \<Rightarrow> EvaluationResult" where
  "policy_Evaluate U e now skill params env =
     foldl (Evaluate_step U e now skill params env)
       \<lparr> Passed = True, Violations = [], Warnings = [], Denied = False \<rparr>
       (policies e)"

text \<open>
  Two notions for stating what \<open>Evaluate\<close> returns: a policy is triggered by a
  request when it applies and its check reports a violation, and the violation
  record that the loop builds for it.
\<close>

definition triggered :: "unicode \<Rightarrow> Time \<Rightarrow> Skill \<Rightarrow> Params \<Rightarrow> string \<Rightarrow> Policy \<Rightarrow> bool" where
  "triggered U now skill params env policy =
     (policyApplies U policy skill env \<and> fst (CheckFunc policy now skill params env))"

definition violationOf :: "Time \<Rightarrow> Skill \<Rightarrow> Params \<Rightarrow> string \<Rightarrow> Policy \<Rightarrow> Violation" where
  "violationOf now skill params env policy =
     \<lparr> PolicyName = Policy.Name policy,
       Violation.Description = Policy.Description policy,
       Violation.Severity = Policy.Severity policy,
       Violation.Enforcement = Policy.Enforcement policy,
       Reason = snd (CheckFunc policy now skill params env),
       Violation.SkillName = Skill.Name skill,
       Environment = env,
       Timestamp = now \<rparr>"


section \<open>Package rbac\<close>

type_synonym Role = string

definition RoleViewer :: Role where "RoleViewer = ''viewer''"
definition RoleOperator :: Role where "RoleOperator = ''operator''"
definition RoleAdmin :: Role where "RoleAdmin = ''admin''"
definition RoleSuperAdmin :: Role where "RoleSuperAdmin = ''superadmin''"

record Permission =
  AllowedRiskLevels :: "RiskLevel list"
  AllowedCategories :: "string list"
  AllowedEnvironments :: "string list"
  AllowedSkillPatterns :: "string list"
  DenySkillPatterns :: "string list"
  CanApprove :: bool
  CanManagePolicies :: bool
  CanManageUsers :: bool

record User =
  Username :: string
  Role :: Role
  Teams :: "string list"

record rbac_Engine =
  users :: "string \<rightharpoonup> User"
  permissions :: "Role \<rightharpoonup> Permission"
  enabled :: bool

text \<open>A field that a struct literal leaves out is the nil slice, which reads as \<open>[]\<close>.\<close>

definition loadDefaultPermissions :: "rbac_Engine \<Rightarrow> rbac_Engine" where
  "loadDefaultPermissions e =
     e \<lparr> permissions := (permissions e)
       (RoleViewer \<mapsto>
          \<lparr> AllowedRiskLevels = [RiskLow], AllowedCategories = [],
            AllowedEnvironments = [''staging'', ''dev''], AllowedSkillPatterns = [],
            DenySkillPatterns = [], CanApprove = False, CanManagePolicies = False,
            CanManageUsers = False \<rparr>,
        RoleOperator \<mapsto>
          \<lparr> AllowedRiskLevels = [RiskLow, RiskMedium], AllowedCategories = [],
            AllowedEnvironments = [''staging'', ''dev'', ''qa''], AllowedSkillPatterns = [],
            DenySkillPatterns = [], CanApprove = False, CanManagePolicies = False,
            CanManageUsers = False \<rparr>,
        RoleAdmin \<mapsto>
          \<lparr> AllowedRiskLevels = [RiskLow, RiskMedium, RiskHigh], AllowedCategories = [],
            AllowedEnvironments = [''staging'', ''dev'', ''qa'', ''production''],
            AllowedSkillPatterns = [], DenySkillPatterns = [], CanApprove = True,
            CanManagePolicies = True, CanManageUsers = False \<rparr>,
        RoleSuperAdmin \<mapsto>
          \<lparr> AllowedRiskLevels = [RiskLow, RiskMedium, RiskHigh, RiskCritical],
            AllowedCategories = [], AllowedEnvironments = [], AllowedSkillPatterns = [],
            DenySkillPatterns = [], CanApprove = True, CanManagePolicies = True,
            CanManageUsers = True \<rparr>) \<rparr>"

definition rbac_NewEngine :: rbac_Engine where
  "rbac_NewEngine =
     loadDefaultPermissions \<lparr> users = Map.empty, permissions = Map.empty, enabled = True \<rparr>"

definition SetEnabled :: "rbac_Engine \<Rightarrow> bool \<Rightarrow> rbac_Engine" where
  "SetEnabled e en = e \<lparr> enabled := en \<rparr>"

definition AddUser :: "rbac_Engine \<Rightarrow> string \<Rightarrow> Role \<Rightarrow> string list \<Rightarrow> rbac_Engine" where
  "AddUser e username role teams =
     e \<lparr> users := (users e)
       (username \<mapsto> \<lparr> Username = username, Role = role, Teams = teams \<rparr>) \<rparr>"

text \<open>
  \<open>GetUser\<close> returns either the user or an error, never both and never neither:
  a sum, with the error on the left.
\<close>

definition GetUser :: "rbac_Engine \<Rightarrow> string \<Rightarrow> error + User" where
  "GetUser e username =
     (case users e username of
        None \<Rightarrow> Inl (''user not found: '' @ username)
      | Some u \<Rightarrow> Inr u)"

definition containsRisk :: "RiskLevel list \<Rightarrow> RiskLevel \<Rightarrow> bool" where
  "containsRisk levels target = list_ex (\<lambda>l. l = target) levels"

definition containsStr :: "unicode \<Rightarrow> string list \<Rightarrow> string \<Rightarrow> bool" where
  "containsStr U items target = list_ex (\<lambda>i. EqualFold U i target) items"

definition matchPattern :: "string \<Rightarrow> string \<Rightarrow> bool" where
  "matchPattern name pattern =
     (if pattern = ''*'' then True
      else if HasSuffix pattern ''*'' then HasPrefix name (TrimSuffix pattern ''*'')
      else name = pattern)"

definition CanExecute :: "unicode \<Rightarrow> rbac_Engine \<Rightarrow> string \<Rightarrow> Skill \<Rightarrow> string \<Rightarrow> bool \<times> string" where
  "CanExecute U e username skill env =
     (if \<not> enabled e then (True, '''')
      else
        (case GetUser e username of
           Inl err \<Rightarrow> (False, ''Access denied: '' @ err)
         | Inr user \<Rightarrow>
             (case permissions e (Role user) of
                None \<Rightarrow> (False, ''No permissions defined for role: '' @ Role user)
              | Some perm \<Rightarrow>
                  if \<not> containsRisk (AllowedRiskLevels perm) (Skill.RiskLevel skill)
                    then (False, ''Role '' @ [CHR 0x27] @ Role user @ [CHR 0x27] @
                            '' cannot execute '' @ RiskLevel_String (Skill.RiskLevel skill) @
                            ''-risk operations'')
                  else if length (AllowedEnvironments perm) > 0 \<and>
                          \<not> containsStr U (AllowedEnvironments perm) env
                    then (False, ''Role '' @ [CHR 0x27] @ Role user @ [CHR 0x27] @
                            '' cannot access environment '' @ [CHR 0x27] @ env @ [CHR 0x27])
                  else if list_ex (\<lambda>pattern. matchPattern (Skill.Name skill) pattern)
                            (DenySkillPatterns perm)
                    then (False, ''Skill '' @ [CHR 0x27] @ Skill.Name skill @ [CHR 0x27] @
                            '' is denied for role '' @ [CHR 0x27] @ Role user @ [CHR 0x27])
                  else (True, ''''))))"

definition CanApprove :: "rbac_Engine \<Rightarrow> string \<Rightarrow> bool" where
  "CanApprove e username =
     (if \<not> enabled e then True
      else
        (case GetUser e username of
           Inl err \<Rightarrow> False
         | Inr user \<Rightarrow>
             (case permissions e (Role user) of
                None \<Rightarrow> False
              | Some perm \<Rightarrow> Permission.CanApprove perm)))"


section \<open>Package executor\<close>

type_synonym ExecutionStatus = string

definition StatusSuccess :: ExecutionStatus where "StatusSuccess = ''success''"
definition StatusFailed :: ExecutionStatus where "StatusFailed = ''failed''"
definition StatusDryRun :: ExecutionStatus where "StatusDryRun = ''dry_run''"
definition StatusCancelled :: ExecutionStatus where "StatusCancelled = ''cancelled''"
definition StatusPending :: ExecutionStatus where "StatusPending = ''pending''"

text \<open>
  \<open>ExecutionResult.Output\<close> is a \<open>map[string]interface{}\<close>; the executor stores
  strings, the integer exit code and the parameter map of the request in it.
\<close>

datatype output_value = OutString string | OutInt int | OutParams Params

record ExecutionResult =
  SkillName :: string
  Status :: ExecutionStatus
  Output :: "string \<rightharpoonup> output_value"
  Message :: string
  Duration :: Duration
  Error :: string
  Timestamp :: Time

text \<open>
  The safety layer of an executor is a pointer that may be nil; the layer itself has
  no fields.
\<close>

type_synonym Layer = unit

record CLIExecutor =
  safetyLayer :: "Layer option"
  dryRun :: bool
  workDir :: string

definition NewCLIExecutor :: "Layer option \<Rightarrow> bool \<Rightarrow> CLIExecutor" where
  "NewCLIExecutor layer dry = \<lparr> safetyLayer = layer, dryRun = dry, workDir = '''' \<rparr>"

definition SetWorkDir :: "CLIExecutor \<Rightarrow> string \<Rightarrow> CLIExecutor" where
  "SetWorkDir e dir = e \<lparr> workDir := dir \<rparr>"

text \<open>
  What one call of \<open>Execute\<close> takes from outside the program: the two readings of
  the clock, the order in which each \<open>range\<close> over the parameter map visits its keys
  (Go leaves it unspecified, and it may differ from one loop to the next), the
  operating system running a process (under the caller's context and the timeout
  set on it), and the printing of a duration. Starting a
  process is the only effect of \<open>Execute\<close>; the model returns, next to the result,
  the list of processes started, each by its argument vector.

  \<open>cmd.Run\<close> is \<open>Start\<close> followed by \<open>Wait\<close>, and its error tells the three ways
  it fails apart: \<open>StartError\<close>, when \<open>Start\<close> fails and no process exists (the
  working directory is missing, the shell is not found, the context is already
  done); \<open>ExitError\<close>, Go's \<open>*exec.ExitError\<close> with its exit code, when the process
  ran and did not succeed; \<open>WaitError\<close>, when the process ran and \<open>Wait\<close> reports
  any other error.
\<close>

datatype run_error = StartError string | ExitError int string | WaitError string

fun run_error_message :: "run_error \<Rightarrow> string" where
  "run_error_message (StartError msg) = msg"
| "run_error_message (ExitError code msg) = msg"
| "run_error_message (WaitError msg) = msg"

record host =
  startTime :: Time
    \<comment> \<open>\<open>time.Now()\<close> on entry\<close>
  elapsed :: Duration
    \<comment> \<open>\<open>time.Since(start)\<close>, read once on each path\<close>
  rangeOrder :: "nat \<Rightarrow> string list"
    \<comment> \<open>the keys of the parameter map in the order of the \<open>k\<close>-th \<open>range\<close> over it\<close>
  runProcess :: "string \<Rightarrow> string list \<Rightarrow> Duration \<Rightarrow> string \<times> string \<times> run_error option"
    \<comment> \<open>\<open>cmd.Run()\<close> in a directory, for an argument vector, under a timeout:
        standard output, standard error and the error\<close>
  roundedDurationString :: "Duration \<Rightarrow> string"
    \<comment> \<open>\<open>d.Round(time.Millisecond)\<close> printed with \<open>%s\<close>\<close>

fun replaceFrom :: "string \<Rightarrow> string \<Rightarrow> string \<Rightarrow> string" where
  "replaceFrom [] old new = []"
| "replaceFrom (c # cs) old new =
     (if HasPrefix (c # cs) old \<and> old \<noteq> []
      then new @ replaceFrom (drop (length old) (c # cs)) old new
      else c # replaceFrom cs old new)"

definition ReplaceAll :: "string \<Rightarrow> string \<Rightarrow> string \<Rightarrow> string" where
  \<comment> \<open>\<open>strings.ReplaceAll\<close> for a non-empty \<open>old\<close>: the non-overlapping copies of
      \<open>old\<close>, from the left. The executor only passes a placeholder \<open>{key}\<close>, of two
      bytes at least; for an empty \<open>old\<close> the string is returned as it is, which is
      not what Go does.\<close>
  "ReplaceAll s old new = replaceFrom s old new"

definition interpolateCommand :: "string list \<Rightarrow> string \<Rightarrow> Params \<Rightarrow> string" where
  \<comment> \<open>\<open>order\<close>: the keys of \<open>params\<close> in the order this loop visits them\<close>
  "interpolateCommand order template params =
     foldl (\<lambda>result key.
              case params key of
                None \<Rightarrow> result
              | Some val \<Rightarrow> ReplaceAll result (''{'' @ key @ ''}'') (formatV val))
       template order"

definition isWindows :: "unicode \<Rightarrow> bool" where
  "isWindows U = Contains (ToLower U ''os'') ''windows''"

definition runCommand ::
  "unicode \<Rightarrow> host \<Rightarrow> CLIExecutor \<Rightarrow> Duration \<Rightarrow> string \<Rightarrow>
   (string \<times> string \<times> int \<times> run_error option) \<times> string list list" where
  \<comment> \<open>the second component: the processes started, none when \<open>Start\<close> failed\<close>
  "runCommand U h e timeout command =
     (let argv = (if isWindows U then [''cmd'', ''/C'', command] else [''sh'', ''-c'', command]);
          (stdout, stderr, err) = runProcess h (workDir e) argv timeout;
          exitCode = (case err of
                        None \<Rightarrow> 0
                      | Some (ExitError code msg) \<Rightarrow> code
                      | Some (StartError msg) \<Rightarrow> - 1
                      | Some (WaitError msg) \<Rightarrow> - 1);
          started = (case err of
                       Some (StartError msg) \<Rightarrow> []
                     | _ \<Rightarrow> [argv])
      in ((stdout, stderr, exitCode, err), started))"

definition hasConfirmation :: "Params \<Rightarrow> bool" where
  "hasConfirmation params =
     (case params ''_confirmed'' of
        Some (VBool b) \<Rightarrow> b
      | _ \<Rightarrow> False)"

definition hasForce :: "Params \<Rightarrow> bool" where
  "hasForce params =
     (case params ''_force'' of
        Some (VBool b) \<Rightarrow> b
      | _ \<Rightarrow> False)"

definition CLIExecutor_shouldDryRun :: "Skill \<Rightarrow> bool" where
  \<comment> \<open>the source calls \<open>hasForce(nil)\<close>: the nil map, whatever the request holds\<close>
  "CLIExecutor_shouldDryRun skill = (Skill.RiskLevel skill \<ge> RiskHigh \<and> \<not> hasForce Map.empty)"

definition truncate :: "string \<Rightarrow> nat \<Rightarrow> string" where
  "truncate s maxLen = (if length s \<le> maxLen then s else take maxLen s @ ''...'')"

text \<open>
  \<open>Execute\<close> in two parts: the confirmation gate, and what follows it in the source
  (the dry-run branch and the launch of the command), which both ways out of the
  gate share.
\<close>

definition Execute_gated ::
  "unicode \<Rightarrow> host \<Rightarrow> CLIExecutor \<Rightarrow> Skill \<Rightarrow> Params \<Rightarrow> ExecutionResult \<Rightarrow>
   ExecutionResult \<times> string list list" where
  "Execute_gated U h e skill params result =
     (if dryRun e \<or> CLIExecutor_shouldDryRun skill
      then (result \<lparr> Status := StatusDryRun,
                      Message := ''[DRY RUN] Would execute: '' @
                        interpolateCommand (rangeOrder h 0)
                          (Command (Skill.Execution skill)) params,
                      Output := (Output result)
                        (''command'' \<mapsto> OutString
                           (interpolateCommand (rangeOrder h 1)
                              (Command (Skill.Execution skill)) params),
                         ''params'' \<mapsto> OutParams params),
                      ExecutionResult.Duration := elapsed h \<rparr>, [])
      else
        (let command = interpolateCommand (rangeOrder h 0)
                         (Command (Skill.Execution skill)) params;
             timeout = (if Timeout (Skill.Execution skill) = 0 then 60 * 1000000000
                        else Timeout (Skill.Execution skill));
             ((stdout, stderr, exitCode, err), started) = runCommand U h e timeout command;
             result = result \<lparr> ExecutionResult.Duration := elapsed h,
                               Output := (Output result)
                                 (''stdout'' \<mapsto> OutString stdout,
                                  ''stderr'' \<mapsto> OutString stderr,
                                  ''exit_code'' \<mapsto> OutInt exitCode,
                                  ''command'' \<mapsto> OutString command) \<rparr>
         in case err of
              Some re \<Rightarrow>
                (result \<lparr> Status := StatusFailed,
                           Error := run_error_message re,
                           Message := ''Command failed (exit '' @ showInt exitCode @ ''): '' @
                                      truncate stderr 200 \<rparr>, started)
            | None \<Rightarrow>
                (result \<lparr> Status := StatusSuccess,
                           Message := ''Completed successfully in '' @
                                      roundedDurationString h (elapsed h) \<rparr>, started)))"

definition Execute ::
  "unicode \<Rightarrow> host \<Rightarrow> CLIExecutor \<Rightarrow> Skill \<Rightarrow> Params \<Rightarrow> string \<Rightarrow>
   ExecutionResult \<times> string list list" where
  "Execute U h e skill params env =
     (let start = startTime h;
          result = \<lparr> ExecutionResult.SkillName = Skill.Name skill, Status = '''',
                     Output = Map.empty, Message = '''', ExecutionResult.Duration = 0,
                     Error = '''', ExecutionResult.Timestamp = start \<rparr>
      in case safetyLayer e of
           Some layer \<Rightarrow>
             (let report = Layer_Evaluate U skill params env
              in if SafetyReport.RequiresConfirmation report \<and> \<not> hasConfirmation params
                 then (result \<lparr> Status := StatusPending,
                                 Message := ''Action requires confirmation: '' @
                                            SafetyReport.ConfirmationPrompt report,
                                 ExecutionResult.Duration := elapsed h \<rparr>, [])
                 else Execute_gated U h e skill params result)
         | None \<Rightarrow> Execute_gated U h e skill params result)"


section \<open>Fixtures\<close>

text \<open>
  Concrete values for the instances below: a skill given by name and risk with
  every other field at its zero value, as the repository's tests build one; Unicode
  tables for text that is ASCII throughout, where they are never consulted; and a
  host whose clock stands still and whose processes succeed in silence.
\<close>

definition skillOf :: "string \<Rightarrow> RiskLevel \<Rightarrow> Skill" where
  "skillOf name risk =
     \<lparr> Skill.Name = name, Skill.Description = '''', Skill.Provider = '''',
       Skill.Category = '''', Skill.Inputs = [], Skill.Outputs = [],
       Skill.RiskLevel = risk, Skill.RequiresConfirmation = False,
       Skill.Execution = \<lparr> ExecutionConfig.Type = '''', Command = '''', Timeout = 0 \<rparr>,
       Skill.Rollback = \<lparr> Supported = False, Procedure = '''' \<rparr> \<rparr>"

definition asciiOnly :: unicode where
  "asciiOnly = \<lparr> lowerNonASCII = (\<lambda>s. s), foldNonASCII = (\<lambda>s t. False) \<rparr>"

definition quietHost :: host where
  "quietHost = \<lparr> startTime = 0, elapsed = 0, rangeOrder = (\<lambda>k. []),
                  runProcess = (\<lambda>dir argv timeout. ('''', '''', None)),
                  roundedDurationString = (\<lambda>d. ''0s'') \<rparr>"

text \<open>
  A rule that always reports a violation, scoped by patterns and environments, as in
  the repository's pattern-matching test; the catalogue's \<open>aws.ec2.scale\<close> skill; a
  confirmed request for it, and a host that visits the two keys of that request in
  a fixed order.
\<close>

definition patternPolicy :: "string list \<Rightarrow> string list \<Rightarrow> Policy" where
  "patternPolicy pats envs =
     \<lparr> Policy.Name = ''test_pattern'', Policy.Description = '''',
       Policy.Enforcement = EnforcementDeny, Policy.Severity = SeverityCritical,
       AppliesTo = pats, Environments = envs,
       CheckFunc = (\<lambda>now skill params env. (True, ''always fails'')) \<rparr>"

definition aws_ec2_scale :: Skill where
  "aws_ec2_scale =
     \<lparr> Skill.Name = ''aws.ec2.scale'',
       Skill.Description = ''Scale Auto Scaling Groups up or down'',
       Skill.Provider = ''aws'', Skill.Category = ''compute'',
       Skill.Inputs =
         [\<lparr> SkillInput.Name = ''asg_name'', SkillInput.Type = ''string'', Required = True,
            SkillInput.Description = ''Auto Scaling Group name'', Default = '''' \<rparr>,
          \<lparr> SkillInput.Name = ''desired_capacity'', SkillInput.Type = ''int'', Required = True,
            SkillInput.Description = ''Target instance count'', Default = '''' \<rparr>,
          \<lparr> SkillInput.Name = ''region'', SkillInput.Type = ''string'', Required = False,
            SkillInput.Description = ''AWS region'', Default = ''us-east-1'' \<rparr>],
       Skill.Outputs =
         [\<lparr> SkillOutput.Name = ''previous_capacity'', SkillOutput.Type = ''int'',
            SkillOutput.Description = ''Previous desired capacity'' \<rparr>,
          \<lparr> SkillOutput.Name = ''new_capacity'', SkillOutput.Type = ''int'',
            SkillOutput.Description = ''New desired capacity'' \<rparr>],
       Skill.RiskLevel = RiskMedium, Skill.RequiresConfirmation = True,
       Skill.Execution =
         \<lparr> ExecutionConfig.Type = ''cli'',
           Command = ''aws autoscaling update-auto-scaling-group --desired-capacity'',
           Timeout = 60 * 1000000000 \<rparr>,
       Skill.Rollback =
         \<lparr> Supported = True,
           Procedure = ''Restore previous desired capacity via aws autoscaling update-auto-scaling-group'' \<rparr> \<rparr>"

definition confirmedScale :: Params where
  "confirmedScale = [''_confirmed'' \<mapsto> VBool True, ''desired_capacity'' \<mapsto> VInt 7]"

definition scaleHost :: host where
  "scaleHost = quietHost \<lparr> rangeOrder := (\<lambda>k. [''_confirmed'', ''desired_capacity'']) \<rparr>"

text \<open>
  The same request without the confirmation, with its host; and the catalogue's
  \<open>argocd.sync\<close> skill, whose command has a placeholder, with a confirmed request
  for the application \<open>web\<close> and its host.
\<close>

definition unconfirmedScale :: Params where
  "unconfirmedScale = [''desired_capacity'' \<mapsto> VInt 7]"

definition unconfirmedHost :: host where
  "unconfirmedHost = quietHost \<lparr> rangeOrder := (\<lambda>k. [''desired_capacity'']) \<rparr>"

definition argocd_sync :: Skill where
  "argocd_sync =
     \<lparr> Skill.Name = ''argocd.sync'',
       Skill.Description = ''Trigger ArgoCD application sync'',
       Skill.Provider = ''argocd'', Skill.Category = ''deployment'',
       Skill.Inputs =
         [\<lparr> SkillInput.Name = ''app_name'', SkillInput.Type = ''string'', Required = True,
            SkillInput.Description = ''ArgoCD application name'', Default = '''' \<rparr>,
          \<lparr> SkillInput.Name = ''prune'', SkillInput.Type = ''bool'', Required = False,
            SkillInput.Description = ''Prune resources not in source'', Default = '''' \<rparr>,
          \<lparr> SkillInput.Name = ''force'', SkillInput.Type = ''bool'', Required = False,
            SkillInput.Description = ''Force sync even if already synced'', Default = '''' \<rparr>],
       Skill.Outputs =
         [\<lparr> SkillOutput.Name = ''sync_status'', SkillOutput.Type = ''string'',
            SkillOutput.Description = ''Sync result status'' \<rparr>,
          \<lparr> SkillOutput.Name = ''health_status'', SkillOutput.Type = ''string'',
            SkillOutput.Description = ''Application health status'' \<rparr>],
       Skill.RiskLevel = RiskMedium, Skill.RequiresConfirmation = True,
       Skill.Execution =
         \<lparr> ExecutionConfig.Type = ''cli'', Command = ''argocd app sync {app_name}'',
           Timeout = 300 * 1000000000 \<rparr>,
       Skill.Rollback =
         \<lparr> Supported = True,
           Procedure = ''argocd app rollback {app_name} to previous revision'' \<rparr> \<rparr>"

definition confirmedSync :: Params where
  "confirmedSync = [''_confirmed'' \<mapsto> VBool True, ''app_name'' \<mapsto> VString ''web'']"

definition syncHost :: host where
  "syncHost = quietHost \<lparr> rangeOrder := (\<lambda>k. [''app_name'', ''_confirmed'']) \<rparr>"


section \<open>The risk scale\<close>

text \<open>
  Claim C9. Round trip of the risk scale: for each of the four levels Low, Medium,
  High and Critical, parsing the level's string gives the level back with no error;
  and every string that is not one of the four canonical names is rejected with an
  error.
\<close>

theorem ParseRiskLevel_roundtrip:
  "(r \<in> {RiskLow, RiskMedium, RiskHigh, RiskCritical} \<longrightarrow>
      ParseRiskLevel (RiskLevel_String r) = (r, None)) \<and>
   (s \<notin> {''LOW'', ''MEDIUM'', ''HIGH'', ''CRITICAL''} \<longrightarrow>
      (\<exists>e. snd (ParseRiskLevel s) = Some e))"
  by (auto simp: ParseRiskLevel_def RiskLevel_String_def
      RiskLow_def RiskMedium_def RiskHigh_def RiskCritical_def)

theorem ParseRiskLevel_roundtrip_witness:
  "RiskHigh \<in> {RiskLow, RiskMedium, RiskHigh, RiskCritical} \<and>
   ParseRiskLevel (RiskLevel_String RiskHigh) = (RiskHigh, None) \<and>
   ''high'' \<notin> {''LOW'', ''MEDIUM'', ''HIGH'', ''CRITICAL''} \<and>
   (\<exists>e. snd (ParseRiskLevel ''high'') = Some e)"
  using ParseRiskLevel_roundtrip [of RiskHigh "''high''"] by simp


section \<open>The safety evaluation\<close>

lemma lowerByte_ascii: "isASCIIbyte (lowerByte c) \<Longrightarrow> isASCIIbyte c"
  by (auto simp: lowerByte_def isASCIIbyte_def isUpperASCII_def split: if_splits)

lemma map_lowerByte_ascii:
  "list_all isASCIIbyte (map lowerByte s) \<Longrightarrow> list_all isASCIIbyte s"
  by (induction s) (auto dest: lowerByte_ascii)

lemma production_names_ascii:
  "list_all isASCIIbyte ''production''" "list_all isASCIIbyte ''prod''" "list_all isASCIIbyte ''prd''"
  by code_simp+

lemma ToLower_production:
  assumes "map lowerByte env \<in> {''production'', ''prod'', ''prd''}"
  shows "ToLower U env = map lowerByte env"
proof -
  from assms have "list_all isASCIIbyte (map lowerByte env)"
    using production_names_ascii by auto
  then have "list_all isASCIIbyte env" by (rule map_lowerByte_ascii)
  then show ?thesis by (simp add: ToLower_def)
qed

lemma isProductionEnvironment_fold:
  "map lowerByte env \<in> {''production'', ''prod'', ''prd''} \<Longrightarrow> isProductionEnvironment U env"
  using ToLower_production [of env U] by (auto simp: isProductionEnvironment_def Let_def)

lemma Evaluate_RiskLevel:
  "SafetyReport.RiskLevel (Layer_Evaluate U skill params env) =
     (if isProductionEnvironment U env \<and> Skill.RiskLevel skill < RiskHigh then RiskHigh
      else Skill.RiskLevel skill)"
  by (simp add: Layer_Evaluate_def Let_def)

lemma Evaluate_RequiresConfirmation:
  "SafetyReport.RequiresConfirmation (Layer_Evaluate U skill params env) =
     (isProductionEnvironment U env \<or> Skill.RequiresConfirmation skill)"
  by (simp add: Layer_Evaluate_def Let_def)

lemma Evaluate_EnvironmentWarning:
  "SafetyReport.EnvironmentWarning (Layer_Evaluate U skill params env) =
     (if isProductionEnvironment U env then productionWarning else '''')"
  by (simp add: Layer_Evaluate_def Let_def)

lemma Evaluate_BlastRadius:
  "SafetyReport.BlastRadius (Layer_Evaluate U skill params env) = estimateBlastRadius skill params"
  by (simp add: Layer_Evaluate_def Let_def)

lemma Evaluate_DryRunRecommended:
  "SafetyReport.DryRunRecommended (Layer_Evaluate U skill params env) = Layer_shouldDryRun U skill"
  by (simp add: Layer_Evaluate_def Let_def)

lemma Evaluate_ConfirmationPrompt:
  "SafetyReport.ConfirmationPrompt (Layer_Evaluate U skill params env) =
     getConfirmationPrompt (SafetyReport.RiskLevel (Layer_Evaluate U skill params env))"
  by (simp add: Layer_Evaluate_def Let_def)

text \<open>
  Claim C2. For every skill and parameters, if the environment is \<open>production\<close>,
  \<open>prod\<close> or \<open>prd\<close> written in any letter case, the report of \<open>Evaluate\<close> has a
  risk level of at least High, requires confirmation and carries a non-empty
  environment warning. An environment is such a spelling exactly when lowering its
  ASCII capitals gives one of the three words.
\<close>

theorem production_escalation:
  "map lowerByte env \<in> {''production'', ''prod'', ''prd''} \<Longrightarrow>
   RiskHigh \<le> SafetyReport.RiskLevel (Layer_Evaluate U skill params env) \<and>
   SafetyReport.RequiresConfirmation (Layer_Evaluate U skill params env) \<and>
   SafetyReport.EnvironmentWarning (Layer_Evaluate U skill params env) \<noteq> ''''"
  by (simp add: Evaluate_RiskLevel Evaluate_RequiresConfirmation Evaluate_EnvironmentWarning
      isProductionEnvironment_fold productionWarning_def)

lemma PrOd_folds: "map lowerByte ''PrOd'' = ''prod''"
  by code_simp

theorem production_escalation_witness:
  "map lowerByte ''PrOd'' \<in> {''production'', ''prod'', ''prd''} \<and>
   RiskHigh \<le> SafetyReport.RiskLevel
     (Layer_Evaluate asciiOnly (skillOf ''aws.ec2.list'' RiskLow) Map.empty ''PrOd'') \<and>
   SafetyReport.RequiresConfirmation
     (Layer_Evaluate asciiOnly (skillOf ''aws.ec2.list'' RiskLow) Map.empty ''PrOd'') \<and>
   SafetyReport.EnvironmentWarning
     (Layer_Evaluate asciiOnly (skillOf ''aws.ec2.list'' RiskLow) Map.empty ''PrOd'') \<noteq> ''''"
proof -
  have h: "map lowerByte ''PrOd'' \<in> {''production'', ''prod'', ''prd''}"
    unfolding PrOd_folds by simp
  from h production_escalation [OF h, of asciiOnly "skillOf ''aws.ec2.list'' RiskLow" Map.empty]
  show ?thesis by (rule conjI)
qed

text \<open>
  Claim C6. For every skill, parameters and environment, the risk level of the report
  is at least the skill's own risk level: escalation never lowers risk.
\<close>

theorem escalation_monotonic:
  "Skill.RiskLevel skill \<le> SafetyReport.RiskLevel (Layer_Evaluate U skill params env)"
  by (simp add: Evaluate_RiskLevel)

theorem escalation_monotonic_witness:
  "Skill.RiskLevel (skillOf ''aws.ec2.scale'' RiskMedium) \<le>
     SafetyReport.RiskLevel
       (Layer_Evaluate asciiOnly (skillOf ''aws.ec2.scale'' RiskMedium) Map.empty ''production'')"
  using escalation_monotonic [of "skillOf ''aws.ec2.scale'' RiskMedium" asciiOnly Map.empty "''production''"]
  by simp


lemma name_aws_ec2_list: "Contains ''aws.ec2.list'' ''.list''"
  by code_simp

lemma name_aws_ec2_scale:
  "\<not> Contains ''aws.ec2.scale'' ''.list''" "\<not> Contains ''aws.ec2.scale'' ''.audit''"
  "\<not> Contains ''aws.ec2.scale'' ''.query''" "\<not> Contains ''aws.ec2.scale'' ''.report''"
  "\<not> Contains ''aws.ec2.scale'' ''.status''" "\<not> Contains ''aws.ec2.scale'' ''.snapshot''"
  "\<not> Contains ''aws.ec2.scale'' ''.deploy''" "\<not> Contains ''aws.ec2.scale'' ''.upgrade''"
  "Contains ''aws.ec2.scale'' ''.scale''"
  by code_simp+

lemma name_terraform_apply:
  "\<not> Contains ''terraform.apply'' ''.list''" "\<not> Contains ''terraform.apply'' ''.audit''"
  "\<not> Contains ''terraform.apply'' ''.query''" "\<not> Contains ''terraform.apply'' ''.report''"
  "\<not> Contains ''terraform.apply'' ''.status''" "\<not> Contains ''terraform.apply'' ''.snapshot''"
  "\<not> Contains ''terraform.apply'' ''.deploy''" "\<not> Contains ''terraform.apply'' ''.upgrade''"
  "\<not> Contains ''terraform.apply'' ''.scale''"
  "Contains ''terraform.apply'' ''terraform.apply''"
  by code_simp+

lemma name_k8s_deploy_sync:
  "\<not> Contains ''k8s.deploy.sync'' ''.list''" "\<not> Contains ''k8s.deploy.sync'' ''.audit''"
  "\<not> Contains ''k8s.deploy.sync'' ''.query''" "\<not> Contains ''k8s.deploy.sync'' ''.report''"
  "\<not> Contains ''k8s.deploy.sync'' ''.status''" "\<not> Contains ''k8s.deploy.sync'' ''.snapshot''"
  "Contains ''k8s.deploy.sync'' ''.deploy''" "Contains ''k8s.deploy.sync'' ''.sync''"
  by code_simp+

lemma blast_scale:
  "Skill.Name skill = ''aws.ec2.scale'' \<Longrightarrow>
   estimateBlastRadius skill params = estimateFromParam params ''desired_capacity'' 1"
  by (simp only: estimateBlastRadius_def name_aws_ec2_scale simp_thms if_True if_False)

lemma blast_terraform:
  "Skill.Name skill = ''terraform.apply'' \<Longrightarrow>
   estimateBlastRadius skill params = estimateFromParam params ''resources_count'' 5"
  by (simp only: estimateBlastRadius_def name_terraform_apply simp_thms if_True if_False)

text \<open>
  Claim C7, as amended. The blast radius of the report is that of
  \<open>estimateBlastRadius\<close>, whatever the environment, and follows the table in the
  order of its rows: 0 for a name containing \<open>.list\<close>, \<open>.audit\<close>, \<open>.query\<close>,
  \<open>.report\<close>, \<open>.status\<close> or \<open>.snapshot\<close>, hence for \<open>aws.ec2.list\<close>; for
  \<open>aws.ec2.scale\<close> the integer \<open>desired_capacity\<close> when present and 1 when absent;
  5 for \<open>terraform.apply\<close> without \<open>resources_count\<close>; 10 for a name containing
  \<open>.sync\<close> or \<open>.migrate\<close> that no earlier row (read-only, \<open>.deploy\<close> or
  \<open>.upgrade\<close>, \<open>.scale\<close>, \<open>terraform.apply\<close>) has taken; and 1 for a name with
  none of the read-only, scale, terraform, sync and migrate patterns.
\<close>

theorem blast_radius_table:
  "SafetyReport.BlastRadius (Layer_Evaluate U skill params env) = estimateBlastRadius skill params \<and>
   (Contains (Skill.Name skill) ''.list'' \<or> Contains (Skill.Name skill) ''.audit'' \<or>
    Contains (Skill.Name skill) ''.query'' \<or> Contains (Skill.Name skill) ''.report'' \<or>
    Contains (Skill.Name skill) ''.status'' \<or> Contains (Skill.Name skill) ''.snapshot''
      \<longrightarrow> estimateBlastRadius skill params = 0) \<and>
   (Skill.Name skill = ''aws.ec2.list'' \<longrightarrow> estimateBlastRadius skill params = 0) \<and>
   (Skill.Name skill = ''aws.ec2.scale'' \<and> params ''desired_capacity'' = Some (VInt k)
      \<longrightarrow> estimateBlastRadius skill params = k) \<and>
   (Skill.Name skill = ''aws.ec2.scale'' \<and> params ''desired_capacity'' = None
      \<longrightarrow> estimateBlastRadius skill params = 1) \<and>
   (Skill.Name skill = ''terraform.apply'' \<and> params ''resources_count'' = None
      \<longrightarrow> estimateBlastRadius skill params = 5) \<and>
   ((Contains (Skill.Name skill) ''.sync'' \<or> Contains (Skill.Name skill) ''.migrate'') \<and>
    \<not> (Contains (Skill.Name skill) ''.list'' \<or> Contains (Skill.Name skill) ''.audit'' \<or>
       Contains (Skill.Name skill) ''.query'' \<or> Contains (Skill.Name skill) ''.report'' \<or>
       Contains (Skill.Name skill) ''.status'' \<or> Contains (Skill.Name skill) ''.snapshot'') \<and>
    \<not> (Contains (Skill.Name skill) ''.deploy'' \<or> Contains (Skill.Name skill) ''.upgrade'') \<and>
    \<not> Contains (Skill.Name skill) ''.scale'' \<and>
    \<not> Contains (Skill.Name skill) ''terraform.apply''
      \<longrightarrow> estimateBlastRadius skill params = 10) \<and>
   (\<not> (Contains (Skill.Name skill) ''.list'' \<or> Contains (Skill.Name skill) ''.audit'' \<or>
       Contains (Skill.Name skill) ''.query'' \<or> Contains (Skill.Name skill) ''.report'' \<or>
       Contains (Skill.Name skill) ''.status'' \<or> Contains (Skill.Name skill) ''.snapshot'') \<and>
    \<not> Contains (Skill.Name skill) ''.scale'' \<and>
    \<not> Contains (Skill.Name skill) ''terraform.apply'' \<and>
    \<not> (Contains (Skill.Name skill) ''.sync'' \<or> Contains (Skill.Name skill) ''.migrate'')
      \<longrightarrow> estimateBlastRadius skill params = 1)"
proof (intro conjI impI)
  show "SafetyReport.BlastRadius (Layer_Evaluate U skill params env) = estimateBlastRadius skill params"
    by (rule Evaluate_BlastRadius)
next
  assume "Skill.Name skill = ''aws.ec2.list''"
  then show "estimateBlastRadius skill params = 0"
    by (simp only: estimateBlastRadius_def name_aws_ec2_list simp_thms if_True)
next
  assume "Skill.Name skill = ''aws.ec2.scale'' \<and> params ''desired_capacity'' = Some (VInt k)"
  then show "estimateBlastRadius skill params = k"
    by (simp add: blast_scale estimateFromParam_def)
next
  assume "Skill.Name skill = ''aws.ec2.scale'' \<and> params ''desired_capacity'' = None"
  then show "estimateBlastRadius skill params = 1"
    by (simp add: blast_scale estimateFromParam_def)
next
  assume "Skill.Name skill = ''terraform.apply'' \<and> params ''resources_count'' = None"
  then show "estimateBlastRadius skill params = 5"
    by (simp add: blast_terraform estimateFromParam_def)
qed (simp_all only: estimateBlastRadius_def simp_thms if_True if_False de_Morgan_disj split: if_splits)

lemma name_aws_s3_sync:
  "Contains ''aws.s3.sync'' ''.sync''"
  "\<not> Contains ''aws.s3.sync'' ''.list''" "\<not> Contains ''aws.s3.sync'' ''.audit''"
  "\<not> Contains ''aws.s3.sync'' ''.query''" "\<not> Contains ''aws.s3.sync'' ''.report''"
  "\<not> Contains ''aws.s3.sync'' ''.status''" "\<not> Contains ''aws.s3.sync'' ''.snapshot''"
  "\<not> Contains ''aws.s3.sync'' ''.deploy''" "\<not> Contains ''aws.s3.sync'' ''.upgrade''"
  "\<not> Contains ''aws.s3.sync'' ''.scale''" "\<not> Contains ''aws.s3.sync'' ''terraform.apply''"
  by code_simp+

theorem blast_radius_table_witness:
  "SafetyReport.BlastRadius
     (Layer_Evaluate asciiOnly (skillOf ''aws.ec2.scale'' RiskMedium)
        [''desired_capacity'' \<mapsto> VInt 7] ''staging'') = 7 \<and>
   SafetyReport.BlastRadius
     (Layer_Evaluate asciiOnly (skillOf ''aws.ec2.scale'' RiskMedium) Map.empty ''staging'') = 1 \<and>
   SafetyReport.BlastRadius
     (Layer_Evaluate asciiOnly (skillOf ''aws.ec2.list'' RiskLow) Map.empty ''production'') = 0 \<and>
   SafetyReport.BlastRadius
     (Layer_Evaluate asciiOnly (skillOf ''terraform.apply'' RiskCritical) Map.empty ''prod'') = 5 \<and>
   SafetyReport.BlastRadius
     (Layer_Evaluate asciiOnly (skillOf ''aws.s3.sync'' RiskMedium) Map.empty ''staging'') = 10"
proof -
  have "SafetyReport.BlastRadius
     (Layer_Evaluate asciiOnly (skillOf ''aws.ec2.scale'' RiskMedium)
        [''desired_capacity'' \<mapsto> VInt 7] ''staging'') = 7"
    using blast_radius_table [of asciiOnly "skillOf ''aws.ec2.scale'' RiskMedium"
        "[''desired_capacity'' \<mapsto> VInt 7]" "''staging''" 7]
    by (simp only: skillOf_def Skill.simps fun_upd_same simp_thms)
  moreover have "SafetyReport.BlastRadius
     (Layer_Evaluate asciiOnly (skillOf ''aws.ec2.scale'' RiskMedium) Map.empty ''staging'') = 1"
    using blast_radius_table [of asciiOnly "skillOf ''aws.ec2.scale'' RiskMedium"
        Map.empty "''staging''"]
    by (simp only: skillOf_def Skill.simps simp_thms)
  moreover have "SafetyReport.BlastRadius
     (Layer_Evaluate asciiOnly (skillOf ''aws.ec2.list'' RiskLow) Map.empty ''production'') = 0"
    using blast_radius_table [of asciiOnly "skillOf ''aws.ec2.list'' RiskLow"
        Map.empty "''production''"]
    by (simp only: skillOf_def Skill.simps simp_thms)
  moreover have "SafetyReport.BlastRadius
     (Layer_Evaluate asciiOnly (skillOf ''terraform.apply'' RiskCritical) Map.empty ''prod'') = 5"
    using blast_radius_table [of asciiOnly "skillOf ''terraform.apply'' RiskCritical"
        Map.empty "''prod''"]
    by (simp only: skillOf_def Skill.simps simp_thms)
  moreover have "SafetyReport.BlastRadius
     (Layer_Evaluate asciiOnly (skillOf ''aws.s3.sync'' RiskMedium) Map.empty ''staging'') = 10"
    using blast_radius_table [of asciiOnly "skillOf ''aws.s3.sync'' RiskMedium"
        Map.empty "''staging''"]
    by (simp only: skillOf_def Skill.simps name_aws_s3_sync simp_thms)
  ultimately show ?thesis by blast
qed

text \<open>
  The claim as first stated gives 10 to every name containing \<open>.sync\<close>. The name
  \<open>k8s.deploy.sync\<close> contains it and gets 1, from the deploy row above it.
\<close>

theorem blast_radius_sync_counterexample:
  "Contains (Skill.Name (skillOf ''k8s.deploy.sync'' RiskHigh)) ''.sync'' \<and>
   SafetyReport.BlastRadius
     (Layer_Evaluate asciiOnly (skillOf ''k8s.deploy.sync'' RiskHigh) Map.empty ''staging'') \<noteq> 10"
  by (simp only: Evaluate_BlastRadius estimateBlastRadius_def skillOf_def Skill.simps name_k8s_deploy_sync simp_thms if_True if_False)


section \<open>The policy engine\<close>

lemma step_not_triggered:
  "\<not> triggered U now skill params env p \<Longrightarrow> Evaluate_step U e now skill params env r p = r"
  by (auto simp: Evaluate_step_def triggered_def split: prod.splits)

lemma step_warn:
  "enforcementMode e = EnforcementWarn \<Longrightarrow> triggered U now skill params env p \<Longrightarrow>
   Evaluate_step U e now skill params env r p =
     r \<lparr> Warnings := Warnings r @ [violationOf now skill params env p] \<rparr>"
  by (auto simp: Evaluate_step_def triggered_def violationOf_def Let_def
      EnforcementWarn_def EnforcementDeny_def split: prod.splits)

lemma step_deny:
  "enforcementMode e = EnforcementDeny \<Longrightarrow> triggered U now skill params env p \<Longrightarrow>
   Evaluate_step U e now skill params env r p =
     r \<lparr> Violations := Violations r @ [violationOf now skill params env p],
         Passed := False, Denied := True \<rparr>"
  by (auto simp: Evaluate_step_def triggered_def violationOf_def Let_def
      EnforcementWarn_def EnforcementDeny_def split: prod.splits)

lemma foldl_warn:
  "enforcementMode e = EnforcementWarn \<Longrightarrow>
   foldl (Evaluate_step U e now skill params env) r ps =
     r \<lparr> Warnings := Warnings r @
           map (violationOf now skill params env) (filter (triggered U now skill params env) ps) \<rparr>"
  by (induction ps arbitrary: r) (simp_all add: step_warn step_not_triggered)

lemma foldl_deny:
  "enforcementMode e = EnforcementDeny \<Longrightarrow>
   foldl (Evaluate_step U e now skill params env) r ps =
     (if filter (triggered U now skill params env) ps = [] then r
      else r \<lparr> Violations := Violations r @
           map (violationOf now skill params env) (filter (triggered U now skill params env) ps),
           Passed := False, Denied := True \<rparr>)"
  by (induction ps arbitrary: r) (simp_all add: step_deny step_not_triggered)

text \<open>
  Claim C1. For every skill, parameters and environment, an engine whose mode is
  Warn never returns a result with \<open>Denied\<close> set: the global mode decides where a
  violation goes, whatever the rule's own \<open>Enforcement\<close> says. Under Warn every
  triggered policy yields a warning, in registration order, and no violation; under
  Deny every triggered policy yields a violation and no warning, and the result is
  denied exactly when some policy is triggered.
\<close>

theorem global_mode_forces_enforcement:
  "(enforcementMode e = EnforcementWarn \<longrightarrow>
      \<not> Denied (policy_Evaluate U e now skill params env) \<and>
      Passed (policy_Evaluate U e now skill params env) \<and>
      Violations (policy_Evaluate U e now skill params env) = [] \<and>
      Warnings (policy_Evaluate U e now skill params env) =
        map (violationOf now skill params env)
          (filter (triggered U now skill params env) (policies e))) \<and>
   (enforcementMode e = EnforcementDeny \<longrightarrow>
      Warnings (policy_Evaluate U e now skill params env) = [] \<and>
      Violations (policy_Evaluate U e now skill params env) =
        map (violationOf now skill params env)
          (filter (triggered U now skill params env) (policies e)) \<and>
      Denied (policy_Evaluate U e now skill params env) =
        (filter (triggered U now skill params env) (policies e) \<noteq> []))"
  by (simp add: policy_Evaluate_def foldl_warn foldl_deny)

lemma step_invariant:
  "Passed r = (\<not> Denied r) \<Longrightarrow> Denied r = (Violations r \<noteq> []) \<Longrightarrow>
   Passed (Evaluate_step U e now skill params env r p) =
     (\<not> Denied (Evaluate_step U e now skill params env r p)) \<and>
   Denied (Evaluate_step U e now skill params env r p) =
     (Violations (Evaluate_step U e now skill params env r p) \<noteq> [])"
  by (auto simp: Evaluate_step_def Let_def split: prod.splits)

lemma foldl_invariant:
  "Passed r = (\<not> Denied r) \<Longrightarrow> Denied r = (Violations r \<noteq> []) \<Longrightarrow>
   Passed (foldl (Evaluate_step U e now skill params env) r ps) =
     (\<not> Denied (foldl (Evaluate_step U e now skill params env) r ps)) \<and>
   Denied (foldl (Evaluate_step U e now skill params env) r ps) =
     (Violations (foldl (Evaluate_step U e now skill params env) r ps) \<noteq> [])"
proof (induction ps arbitrary: r)
  case Nil
  then show ?case by simp
next
  case (Cons p ps)
  from step_invariant [OF Cons.prems, of U e now skill params env p]
  show ?case by (simp add: Cons.IH)
qed

text \<open>
  Claim C10. In every result of \<open>Evaluate\<close>, for every engine, skill, parameters and
  environment, \<open>Passed\<close> holds exactly when \<open>Denied\<close> does not, and \<open>Denied\<close>
  holds exactly when the list of violations is not empty; warnings alone leave
  \<open>Passed\<close> set.
\<close>

theorem evaluation_result_invariant:
  "Passed (policy_Evaluate U e now skill params env) =
     (\<not> Denied (policy_Evaluate U e now skill params env)) \<and>
   Denied (policy_Evaluate U e now skill params env) =
     (Violations (policy_Evaluate U e now skill params env) \<noteq> [])"
  unfolding policy_Evaluate_def by (rule foldl_invariant) simp_all

lemma Register_mode: "enforcementMode (Register e p) = enforcementMode e"
  by (simp add: Register_def)

lemma Register_NewEngine:
  "policies (Register (policy_NewEngine mode) p) = [p]"
  "enforcementMode (Register (policy_NewEngine mode) p) = mode"
  by (simp_all add: Register_def policy_NewEngine_def)

lemma patternPolicy_triggered:
  "triggered asciiOnly 0 (skillOf ''aws.s3.sync'' RiskMedium) Map.empty ''staging''
     (patternPolicy [] [])"
  by (simp add: triggered_def policyApplies_def patternPolicy_def)

theorem global_mode_forces_enforcement_witness:
  "enforcementMode (Register (policy_NewEngine EnforcementWarn) (patternPolicy [] [])) =
     EnforcementWarn \<and>
   Policy.Enforcement (patternPolicy [] []) = EnforcementDeny \<and>
   \<not> Denied (policy_Evaluate asciiOnly
       (Register (policy_NewEngine EnforcementWarn) (patternPolicy [] []))
       0 (skillOf ''aws.s3.sync'' RiskMedium) Map.empty ''staging'') \<and>
   length (Warnings (policy_Evaluate asciiOnly
       (Register (policy_NewEngine EnforcementWarn) (patternPolicy [] []))
       0 (skillOf ''aws.s3.sync'' RiskMedium) Map.empty ''staging'')) = 1 \<and>
   enforcementMode (Register (policy_NewEngine EnforcementDeny) (patternPolicy [] [])) =
     EnforcementDeny \<and>
   Denied (policy_Evaluate asciiOnly
       (Register (policy_NewEngine EnforcementDeny) (patternPolicy [] []))
       0 (skillOf ''aws.s3.sync'' RiskMedium) Map.empty ''staging'')"
  using
    global_mode_forces_enforcement [of
      "Register (policy_NewEngine EnforcementWarn) (patternPolicy [] [])" asciiOnly 0
      "skillOf ''aws.s3.sync'' RiskMedium" Map.empty "''staging''"]
    global_mode_forces_enforcement [of
      "Register (policy_NewEngine EnforcementDeny) (patternPolicy [] [])" asciiOnly 0
      "skillOf ''aws.s3.sync'' RiskMedium" Map.empty "''staging''"]
  by (simp add: Register_NewEngine patternPolicy_triggered EnforcementWarn_def EnforcementDeny_def)
     (simp add: patternPolicy_def EnforcementDeny_def)

theorem evaluation_result_invariant_witness:
  "Passed (policy_Evaluate asciiOnly
       (Register (policy_NewEngine EnforcementDeny) (patternPolicy [] []))
       0 (skillOf ''aws.s3.sync'' RiskMedium) Map.empty ''staging'') =
     (\<not> Denied (policy_Evaluate asciiOnly
       (Register (policy_NewEngine EnforcementDeny) (patternPolicy [] []))
       0 (skillOf ''aws.s3.sync'' RiskMedium) Map.empty ''staging'')) \<and>
   Denied (policy_Evaluate asciiOnly
       (Register (policy_NewEngine EnforcementDeny) (patternPolicy [] []))
       0 (skillOf ''aws.s3.sync'' RiskMedium) Map.empty ''staging'') =
     (Violations (policy_Evaluate asciiOnly
       (Register (policy_NewEngine EnforcementDeny) (patternPolicy [] []))
       0 (skillOf ''aws.s3.sync'' RiskMedium) Map.empty ''staging'') \<noteq> [])"
  by (rule evaluation_result_invariant)


section \<open>Applicability of a policy\<close>

lemma HasPrefix_prefix: "HasPrefix s pre = prefix pre s"
  by (auto simp: HasPrefix_def prefix_def) (metis append_eq_conv_conj)

lemma HasSuffix_append: "HasSuffix (pre @ suf) suf"
  by (simp add: HasSuffix_def)

lemma TrimSuffix_append: "TrimSuffix (pre @ suf) suf = pre"
  by (simp add: TrimSuffix_def HasSuffix_append)

lemma HasSuffix_iff: "HasSuffix s suf = (\<exists>pre. s = pre @ suf)"
proof
  assume "HasSuffix s suf"
  then have "s = take (length s - length suf) s @ suf"
    by (metis HasSuffix_def append_take_drop_id)
  then show "\<exists>pre. s = pre @ suf" ..
next
  assume "\<exists>pre. s = pre @ suf"
  then show "HasSuffix s suf" by (auto simp: HasSuffix_append)
qed

lemma matchSkillPattern_star: "matchSkillPattern name (pre @ ''*'') = HasPrefix name pre"
proof (cases "pre = []")
  case True
  then show ?thesis by (simp add: matchSkillPattern_def HasPrefix_def)
next
  case False
  show ?thesis
  proof (cases "HasSuffix (pre @ ''*'') ''.*''")
    case True
    then obtain q where q: "pre @ ''*'' = q @ ''.*''" by (auto simp: HasSuffix_iff)
    then have pre: "pre = q @ ''.''" by simp
    have "TrimSuffix (pre @ ''*'') ''.*'' = q"
      unfolding q by (rule TrimSuffix_append)
    with True False pre show ?thesis
      by (simp add: matchSkillPattern_def)
  next
    case F2: False
    with False show ?thesis
      by (simp add: matchSkillPattern_def HasSuffix_append TrimSuffix_append)
  qed
qed

lemma matchSkillPattern_dot_star:
  "matchSkillPattern name (pre @ ''.*'') = HasPrefix name (pre @ ''.'')"
  using matchSkillPattern_star [of name "pre @ ''.''"] by simp

lemma matchSkillPattern_exact:
  "\<not> HasSuffix pattern ''*'' \<Longrightarrow> matchSkillPattern name pattern = (name = pattern)"
proof -
  assume a: "\<not> HasSuffix pattern ''*''"
  then have "pattern \<noteq> ''*''" by (auto simp: HasSuffix_def)
  moreover from a have "\<not> HasSuffix pattern ''.*''"
    by (auto simp: HasSuffix_iff)
  ultimately show ?thesis using a by (simp add: matchSkillPattern_def)
qed

lemma policyApplies_iff:
  "policyApplies U p skill env =
     ((AppliesTo p = [] \<or> (\<exists>pattern \<in> set (AppliesTo p). matchSkillPattern (Skill.Name skill) pattern)) \<and>
      (Environments p = [] \<or> (\<exists>e \<in> set (Environments p). EqualFold U e env)))"
  by (auto simp: policyApplies_def list_ex_iff)

lemma of_char_lower:
  "isUpperASCII c \<Longrightarrow> (of_char (lowerByte c) :: nat) = of_char c + 32"
  by (simp add: lowerByte_def isUpperASCII_def)

lemma fold_byte:
  "(tr = sr \<or>
    (let (lo, hi) = (if (of_char tr :: nat) < of_char sr then (tr, sr) else (sr, tr))
     in isUpperASCII lo \<and> (of_char hi :: nat) = of_char lo + 32))
   = (lowerByte sr = lowerByte tr)"
proof -
  have eq: "(lowerByte sr = lowerByte tr) = ((of_char (lowerByte sr) :: nat) = of_char (lowerByte tr))"
    by simp
  show ?thesis
    unfolding eq
    by (cases "isUpperASCII sr"; cases "isUpperASCII tr")
       (auto simp: of_char_lower, auto simp: lowerByte_def isUpperASCII_def)
qed

lemma EqualFold_ascii:
  "list_all isASCIIbyte a \<Longrightarrow> list_all isASCIIbyte b \<Longrightarrow>
   EqualFold U a b = (map lowerByte a = map lowerByte b)"
proof (induction a arbitrary: b)
  case Nil
  then show ?case by (cases b) simp_all
next
  case (Cons sr s)
  show ?case
  proof (cases b)
    case Nil
    then show ?thesis by simp
  next
    case (Cons tr t)
    with Cons.prems have asc: "isASCIIbyte sr" "isASCIIbyte tr"
      and rest: "list_all isASCIIbyte s" "list_all isASCIIbyte t" by simp_all
    have ih: "EqualFold U s t = (map lowerByte s = map lowerByte t)"
      using Cons.IH rest by simp
    show ?thesis
      using fold_byte [of tr sr] asc
      by (auto simp: Cons ih Let_def split: if_splits prod.splits)
  qed
qed

lemma s3_pattern:
  "HasPrefix ''aws.s3.sync'' ''aws.s3.''" "\<not> HasPrefix ''aws.ec2.list'' ''aws.s3.''"
  by code_simp+

text \<open>
  Claim C8. A policy with \<open>AppliesTo = ["aws.s3.*"]\<close> applies to the skill
  \<open>aws.s3.sync\<close> and not to \<open>aws.ec2.list\<close>. The pattern \<open>*\<close> matches every name;
  \<open>prefix.*\<close> matches the names that start with \<open>prefix.\<close>; \<open>prefix*\<close> matches the
  names that start with \<open>prefix\<close>; a pattern that does not end in \<open>*\<close> matches its
  own name only. A policy applies when its pattern list is empty or holds a matching
  pattern, and its environment list is empty or holds an entry equal to the
  environment under \<open>strings.EqualFold\<close>, which on ASCII text is equality after
  lowering the capitals.
\<close>

theorem policy_pattern_matching:
  "(AppliesTo p = [''aws.s3.*''] \<and> Environments p = [] \<longrightarrow>
      (Skill.Name skill = ''aws.s3.sync'' \<longrightarrow> policyApplies U p skill env) \<and>
      (Skill.Name skill = ''aws.ec2.list'' \<longrightarrow> \<not> policyApplies U p skill env)) \<and>
   matchSkillPattern name ''*'' \<and>
   matchSkillPattern name (pre @ ''.*'') = HasPrefix name (pre @ ''.'') \<and>
   matchSkillPattern name (pre @ ''*'') = HasPrefix name pre \<and>
   (\<not> HasSuffix pattern ''*'' \<longrightarrow> matchSkillPattern name pattern = (name = pattern)) \<and>
   policyApplies U p skill env =
     ((AppliesTo p = [] \<or>
         (\<exists>pattern \<in> set (AppliesTo p). matchSkillPattern (Skill.Name skill) pattern)) \<and>
      (Environments p = [] \<or> (\<exists>e \<in> set (Environments p). EqualFold U e env))) \<and>
   (list_all isASCIIbyte a \<and> list_all isASCIIbyte b \<longrightarrow>
      EqualFold U a b = (map lowerByte a = map lowerByte b))"
proof (intro conjI impI)
  assume p: "AppliesTo p = [''aws.s3.*''] \<and> Environments p = []"
  have m: "matchSkillPattern n ''aws.s3.*'' = HasPrefix n ''aws.s3.''" for n
    using matchSkillPattern_dot_star [of n "''aws.s3''"] by simp
  { assume "Skill.Name skill = ''aws.s3.sync''"
    with p show "policyApplies U p skill env"
      by (simp add: policyApplies_iff m s3_pattern) }
  { assume "Skill.Name skill = ''aws.ec2.list''"
    with p show "\<not> policyApplies U p skill env"
      by (simp add: policyApplies_iff m s3_pattern) }
next
  show "matchSkillPattern name ''*''" by (simp add: matchSkillPattern_def)
next
  show "matchSkillPattern name (pre @ ''.*'') = HasPrefix name (pre @ ''.'')"
    by (rule matchSkillPattern_dot_star)
next
  show "matchSkillPattern name (pre @ ''*'') = HasPrefix name pre"
    by (rule matchSkillPattern_star)
next
  assume "\<not> HasSuffix pattern ''*''"
  then show "matchSkillPattern name pattern = (name = pattern)"
    by (rule matchSkillPattern_exact)
next
  show "policyApplies U p skill env =
     ((AppliesTo p = [] \<or>
         (\<exists>pattern \<in> set (AppliesTo p). matchSkillPattern (Skill.Name skill) pattern)) \<and>
      (Environments p = [] \<or> (\<exists>e \<in> set (Environments p). EqualFold U e env)))"
    by (rule policyApplies_iff)
next
  assume "list_all isASCIIbyte a \<and> list_all isASCIIbyte b"
  then show "EqualFold U a b = (map lowerByte a = map lowerByte b)"
    by (simp add: EqualFold_ascii)
qed

lemma staging_fold:
  "list_all isASCIIbyte ''Staging''" "list_all isASCIIbyte ''STAGING''"
  "map lowerByte ''Staging'' = map lowerByte ''STAGING''"
  "\<not> HasSuffix ''aws.s3.sync'' ''*''"
  by code_simp+

theorem policy_pattern_matching_witness:
  "policyApplies asciiOnly (patternPolicy [''aws.s3.*''] []) (skillOf ''aws.s3.sync'' RiskMedium) ''staging'' \<and>
   \<not> policyApplies asciiOnly (patternPolicy [''aws.s3.*''] []) (skillOf ''aws.ec2.list'' RiskLow) ''staging'' \<and>
   matchSkillPattern ''aws.s3.sync'' ''aws.s3.sync'' \<and>
   EqualFold asciiOnly ''Staging'' ''STAGING''"
proof -
  have "policyApplies asciiOnly (patternPolicy [''aws.s3.*''] []) (skillOf ''aws.s3.sync'' RiskMedium) ''staging''"
    using policy_pattern_matching [of "patternPolicy [''aws.s3.*''] []"
        "skillOf ''aws.s3.sync'' RiskMedium" asciiOnly "''staging''"]
    by (simp add: patternPolicy_def skillOf_def)
  moreover have "\<not> policyApplies asciiOnly (patternPolicy [''aws.s3.*''] []) (skillOf ''aws.ec2.list'' RiskLow) ''staging''"
    using policy_pattern_matching [of "patternPolicy [''aws.s3.*''] []"
        "skillOf ''aws.ec2.list'' RiskLow" asciiOnly "''staging''"]
    by (simp add: patternPolicy_def skillOf_def)
  moreover have "matchSkillPattern ''aws.s3.sync'' ''aws.s3.sync''"
    using policy_pattern_matching [of _ _ _ _ _ _ "''aws.s3.sync''" "''aws.s3.sync''"] staging_fold(4)
    by blast
  moreover have "EqualFold asciiOnly ''Staging'' ''STAGING''"
    using policy_pattern_matching [of _ _ asciiOnly _ _ _ _ "''Staging''" "''STAGING''"]
      staging_fold(1-3) by blast
  ultimately show ?thesis by blast
qed


section \<open>Authorization\<close>

lemma default_viewer:
  "permissions rbac_NewEngine RoleViewer =
     Some \<lparr> AllowedRiskLevels = [RiskLow], AllowedCategories = [],
            AllowedEnvironments = [''staging'', ''dev''], AllowedSkillPatterns = [],
            DenySkillPatterns = [], CanApprove = False, CanManagePolicies = False,
            CanManageUsers = False \<rparr>"
  by (simp add: rbac_NewEngine_def loadDefaultPermissions_def
      RoleViewer_def RoleOperator_def RoleAdmin_def RoleSuperAdmin_def)

lemma default_superadmin:
  "permissions rbac_NewEngine RoleSuperAdmin =
     Some \<lparr> AllowedRiskLevels = [RiskLow, RiskMedium, RiskHigh, RiskCritical],
            AllowedCategories = [], AllowedEnvironments = [], AllowedSkillPatterns = [],
            DenySkillPatterns = [], CanApprove = True, CanManagePolicies = True,
            CanManageUsers = True \<rparr>"
  by (simp add: rbac_NewEngine_def loadDefaultPermissions_def
      RoleViewer_def RoleOperator_def RoleAdmin_def RoleSuperAdmin_def)

lemma viewer_environments:
  "\<not> containsStr U [''staging'', ''dev''] ''production''"
  by code_simp

lemma CanExecute_viewer:
  assumes "permissions e = permissions rbac_NewEngine" "enabled e"
    "users e username = Some u" "Role u = RoleViewer"
  shows "CanExecute U e username skill env =
     (if Skill.RiskLevel skill \<noteq> RiskLow
        then (False, ''Role '' @ [CHR 0x27] @ RoleViewer @ [CHR 0x27] @
                '' cannot execute '' @ RiskLevel_String (Skill.RiskLevel skill) @
                ''-risk operations'')
      else if \<not> containsStr U [''staging'', ''dev''] env
        then (False, ''Role '' @ [CHR 0x27] @ RoleViewer @ [CHR 0x27] @
                '' cannot access environment '' @ [CHR 0x27] @ env @ [CHR 0x27])
      else (True, ''''))"
  using assms by (auto simp: CanExecute_def GetUser_def default_viewer containsRisk_def)

text \<open>
  Claim C5. Under the default role table, with access control enabled: a Viewer is
  denied every skill of risk Medium or higher, and every skill in the environment
  \<open>production\<close>; a SuperAdmin is allowed a Critical skill in \<open>production\<close>; a name
  that is not in the user table is denied with a non-empty reason. With access
  control disabled every user, skill and environment is allowed.
\<close>

theorem default_role_table:
  assumes "permissions e = permissions rbac_NewEngine"
  shows
  "(enabled e \<and> users e username = Some u \<and> Role u = RoleViewer \<and>
      Skill.RiskLevel skill \<ge> RiskMedium \<longrightarrow>
        \<not> fst (CanExecute U e username skill env)) \<and>
   (enabled e \<and> users e username = Some u \<and> Role u = RoleViewer \<longrightarrow>
        \<not> fst (CanExecute U e username skill ''production'')) \<and>
   (enabled e \<and> users e username = Some u \<and> Role u = RoleSuperAdmin \<and>
      Skill.RiskLevel skill = RiskCritical \<longrightarrow>
        CanExecute U e username skill ''production'' = (True, '''')) \<and>
   (enabled e \<and> users e username = None \<longrightarrow>
        \<not> fst (CanExecute U e username skill env) \<and>
        snd (CanExecute U e username skill env) \<noteq> '''') \<and>
   (\<not> enabled e \<longrightarrow> CanExecute U e username skill env = (True, ''''))"
proof (intro conjI impI)
  assume "enabled e \<and> users e username = Some u \<and> Role u = RoleViewer \<and>
      Skill.RiskLevel skill \<ge> RiskMedium"
  then show "\<not> fst (CanExecute U e username skill env)"
    using assms by (simp add: CanExecute_viewer RiskMedium_def RiskLow_def)
next
  assume "enabled e \<and> users e username = Some u \<and> Role u = RoleViewer"
  then show "\<not> fst (CanExecute U e username skill ''production'')"
    using assms by (simp add: CanExecute_viewer viewer_environments)
next
  assume "enabled e \<and> users e username = Some u \<and> Role u = RoleSuperAdmin \<and>
      Skill.RiskLevel skill = RiskCritical"
  then show "CanExecute U e username skill ''production'' = (True, '''')"
    using assms by (simp add: CanExecute_def GetUser_def default_superadmin containsRisk_def)
next
  assume a: "enabled e \<and> users e username = None"
  then show "\<not> fst (CanExecute U e username skill env)"
    by (simp add: CanExecute_def GetUser_def)
  from a show "snd (CanExecute U e username skill env) \<noteq> ''''"
    by (simp add: CanExecute_def GetUser_def)
next
  assume "\<not> enabled e"
  then show "CanExecute U e username skill env = (True, '''')"
    by (simp add: CanExecute_def)
qed

lemma NewEngine_fields: "enabled rbac_NewEngine" "users rbac_NewEngine = Map.empty"
  by (simp_all add: rbac_NewEngine_def loadDefaultPermissions_def)

lemma AddUser_fields:
  "permissions (AddUser e username role teams) = permissions e"
  "enabled (AddUser e username role teams) = enabled e"
  "users (AddUser e username role teams) username =
     Some \<lparr> Username = username, Role = role, Teams = teams \<rparr>"
  by (simp_all add: AddUser_def)

lemma SetEnabled_fields:
  "permissions (SetEnabled e en) = permissions e" "enabled (SetEnabled e en) = en"
  by (simp_all add: SetEnabled_def)

theorem default_role_table_witness:
  "\<not> fst (CanExecute asciiOnly (AddUser rbac_NewEngine ''viewer1'' RoleViewer [])
            ''viewer1'' (skillOf ''k8s.deploy'' RiskHigh) ''staging'') \<and>
   \<not> fst (CanExecute asciiOnly (AddUser rbac_NewEngine ''viewer1'' RoleViewer [])
            ''viewer1'' (skillOf ''aws.ec2.list'' RiskLow) ''production'') \<and>
   CanExecute asciiOnly (AddUser rbac_NewEngine ''super1'' RoleSuperAdmin [])
     ''super1'' (skillOf ''terraform.apply'' RiskCritical) ''production'' = (True, '''') \<and>
   \<not> fst (CanExecute asciiOnly rbac_NewEngine ''nonexistent''
            (skillOf ''aws.ec2.list'' RiskLow) ''staging'') \<and>
   snd (CanExecute asciiOnly rbac_NewEngine ''nonexistent''
          (skillOf ''aws.ec2.list'' RiskLow) ''staging'') \<noteq> '''' \<and>
   CanExecute asciiOnly (SetEnabled rbac_NewEngine False) ''nobody''
     (skillOf ''terraform.apply'' RiskCritical) ''production'' = (True, '''')"
proof -
  have viewer: "permissions (AddUser rbac_NewEngine ''viewer1'' RoleViewer []) =
      permissions rbac_NewEngine"
    and super: "permissions (AddUser rbac_NewEngine ''super1'' RoleSuperAdmin []) =
      permissions rbac_NewEngine"
    and off: "permissions (SetEnabled rbac_NewEngine False) = permissions rbac_NewEngine"
    by (simp_all add: AddUser_fields SetEnabled_fields)
  have risk: "RiskMedium \<le> Skill.RiskLevel (skillOf ''k8s.deploy'' RiskHigh)"
    "Skill.RiskLevel (skillOf ''terraform.apply'' RiskCritical) = RiskCritical"
    by (simp_all add: skillOf_def RiskMedium_def RiskHigh_def)
  show ?thesis
    using
      default_role_table [OF viewer, of "''viewer1''"
        "\<lparr> Username = ''viewer1'', Role = RoleViewer, Teams = [] \<rparr>"
        "skillOf ''k8s.deploy'' RiskHigh" asciiOnly "''staging''"]
      default_role_table [OF viewer, of "''viewer1''"
        "\<lparr> Username = ''viewer1'', Role = RoleViewer, Teams = [] \<rparr>"
        "skillOf ''aws.ec2.list'' RiskLow" asciiOnly "''staging''"]
      default_role_table [OF super, of "''super1''"
        "\<lparr> Username = ''super1'', Role = RoleSuperAdmin, Teams = [] \<rparr>"
        "skillOf ''terraform.apply'' RiskCritical" asciiOnly "''staging''"]
      default_role_table [OF refl, of "''nonexistent''" undefined
        "skillOf ''aws.ec2.list'' RiskLow" asciiOnly "''staging''"]
      default_role_table [OF off, of "''nobody''" undefined
        "skillOf ''terraform.apply'' RiskCritical" asciiOnly "''production''"]
    by (simp add: AddUser_fields SetEnabled_fields NewEngine_fields risk)
qed


section \<open>The gates of the executor\<close>

lemma hasConfirmation_iff: "hasConfirmation params = (params ''_confirmed'' = Some (VBool True))"
  by (auto simp: hasConfirmation_def split: option.splits any.splits)

lemma hasForce_iff: "hasForce params = (params ''_force'' = Some (VBool True))"
  by (auto simp: hasForce_def split: option.splits any.splits)

lemma CLIExecutor_shouldDryRun_iff: "CLIExecutor_shouldDryRun skill = (Skill.RiskLevel skill \<ge> RiskHigh)"
  by (simp add: CLIExecutor_shouldDryRun_def hasForce_def)

lemma statuses_distinct:
  "StatusSuccess \<noteq> StatusDryRun" "StatusFailed \<noteq> StatusDryRun" "StatusPending \<noteq> StatusDryRun"
  by (simp_all add: StatusSuccess_def StatusFailed_def StatusDryRun_def StatusPending_def)

lemma Execute_pending:
  "safetyLayer e = Some layer \<Longrightarrow>
   SafetyReport.RequiresConfirmation (Layer_Evaluate U skill params env) \<Longrightarrow>
   \<not> hasConfirmation params \<Longrightarrow>
   Execute U h e skill params env =
     (\<lparr> ExecutionResult.SkillName = Skill.Name skill, Status = StatusPending,
        Output = Map.empty,
        Message = ''Action requires confirmation: '' @
                  SafetyReport.ConfirmationPrompt (Layer_Evaluate U skill params env),
        ExecutionResult.Duration = elapsed h, Error = '''',
        ExecutionResult.Timestamp = startTime h \<rparr>, [])"
  by (simp add: Execute_def Let_def)

lemma Execute_passed:
  "\<not> (safetyLayer e \<noteq> None \<and>
      SafetyReport.RequiresConfirmation (Layer_Evaluate U skill params env) \<and>
      \<not> hasConfirmation params) \<Longrightarrow>
   Execute U h e skill params env =
     Execute_gated U h e skill params
       \<lparr> ExecutionResult.SkillName = Skill.Name skill, Status = '''',
         Output = Map.empty, Message = '''', ExecutionResult.Duration = 0,
         Error = '''', ExecutionResult.Timestamp = startTime h \<rparr>"
  by (auto simp: Execute_def Let_def split: option.splits)

lemma gated_dry:
  "dryRun e \<or> Skill.RiskLevel skill \<ge> RiskHigh \<Longrightarrow>
   Status (fst (Execute_gated U h e skill params r)) = StatusDryRun \<and>
   snd (Execute_gated U h e skill params r) = [] \<and>
   Output (fst (Execute_gated U h e skill params r)) ''command'' =
     Some (OutString (interpolateCommand (rangeOrder h 1) (Command (Skill.Execution skill)) params)) \<and>
   Message (fst (Execute_gated U h e skill params r)) =
     ''[DRY RUN] Would execute: '' @
       interpolateCommand (rangeOrder h 0) (Command (Skill.Execution skill)) params"
  by (auto simp: Execute_gated_def CLIExecutor_shouldDryRun_iff)

lemma gated_run:
  "\<not> dryRun e \<Longrightarrow> Skill.RiskLevel skill < RiskHigh \<Longrightarrow>
   Status (fst (Execute_gated U h e skill params r)) \<noteq> StatusDryRun"
  by (auto simp: Execute_gated_def CLIExecutor_shouldDryRun_iff Let_def statuses_distinct
      split: prod.splits option.splits)

text \<open>
  Claim C3, as amended. For every skill, parameters and environment, and an executor
  built with a safety layer: when the report for the request requires confirmation
  and the parameters do not hold \<open>_confirmed\<close> with the boolean \<open>true\<close>,
  \<open>Execute\<close> returns the pending status with a message that carries the report's
  confirmation prompt, and starts no process.
\<close>

theorem confirmation_gate:
  "safetyLayer e = Some layer \<Longrightarrow>
   SafetyReport.RequiresConfirmation (Layer_Evaluate U skill params env) \<Longrightarrow>
   params ''_confirmed'' \<noteq> Some (VBool True) \<Longrightarrow>
   Status (fst (Execute U h e skill params env)) = StatusPending \<and>
   Message (fst (Execute U h e skill params env)) =
     ''Action requires confirmation: '' @
     SafetyReport.ConfirmationPrompt (Layer_Evaluate U skill params env) \<and>
   snd (Execute U h e skill params env) = []"
  by (simp add: Execute_pending hasConfirmation_iff)

text \<open>
  Claim C4, as amended. For every request that passes the confirmation check, and
  leaving aside a request that carries \<open>_force = true\<close> for a skill of risk High or
  more without the global dry-run mode: \<open>Execute\<close> returns the dry-run status
  exactly when the global dry-run mode is set, or the skill's own risk level is High
  or more and no \<open>_force = true\<close> is present. A dry-run result carries the
  interpolated command, in its message and in its output, and no process is
  started.
\<close>

theorem dry_run_gate:
  assumes "\<not> (safetyLayer e \<noteq> None \<and>
      SafetyReport.RequiresConfirmation (Layer_Evaluate U skill params env) \<and>
      \<not> hasConfirmation params)"
  shows
  "(\<not> (hasForce params \<and> Skill.RiskLevel skill \<ge> RiskHigh \<and> \<not> dryRun e) \<longrightarrow>
      (Status (fst (Execute U h e skill params env)) = StatusDryRun) =
      (dryRun e \<or> (Skill.RiskLevel skill \<ge> RiskHigh \<and> \<not> hasForce params))) \<and>
   (Status (fst (Execute U h e skill params env)) = StatusDryRun \<longrightarrow>
      snd (Execute U h e skill params env) = [] \<and>
      Output (fst (Execute U h e skill params env)) ''command'' =
        Some (OutString (interpolateCommand (rangeOrder h 1)
                           (Command (Skill.Execution skill)) params)) \<and>
      Message (fst (Execute U h e skill params env)) =
        ''[DRY RUN] Would execute: '' @
          interpolateCommand (rangeOrder h 0) (Command (Skill.Execution skill)) params)"
proof (cases "dryRun e \<or> Skill.RiskLevel skill \<ge> RiskHigh")
  case True
  from gated_dry [OF True] show ?thesis
    unfolding Execute_passed [OF assms] using True by auto
next
  case False
  then have "\<not> dryRun e" "Skill.RiskLevel skill < RiskHigh" by auto
  from gated_run [OF this] show ?thesis
    unfolding Execute_passed [OF assms] using False by auto
qed

text \<open>
  The request's \<open>_force\<close> flag does not reach the decision, because
  \<open>shouldDryRun\<close> asks \<open>hasForce\<close> about the nil map: a forced request for a skill
  of risk High or more is a dry run all the same.
\<close>

lemma force_not_consulted:
  assumes "\<not> (safetyLayer e \<noteq> None \<and>
      SafetyReport.RequiresConfirmation (Layer_Evaluate U skill params env) \<and>
      \<not> hasConfirmation params)"
    and "hasForce params" and "Skill.RiskLevel skill \<ge> RiskHigh"
  shows "Status (fst (Execute U h e skill params env)) = StatusDryRun"
  unfolding Execute_passed [OF assms(1)] using gated_dry assms(3) by blast

lemma scale_facts:
  "hasConfirmation confirmedScale"
  "\<not> hasForce confirmedScale"
  "SafetyReport.DryRunRecommended (Layer_Evaluate asciiOnly aws_ec2_scale confirmedScale ''staging'')"
  by code_simp+

text \<open>
  The claim as first stated ties the dry run to the safety report's
  \<open>DryRunRecommended\<close>. The catalogue's \<open>aws.ec2.scale\<close> (risk Medium), confirmed
  and without force, is recommended for a dry run by its name, and the executor,
  not in dry-run mode, runs its command.
\<close>

theorem dry_run_recommended_counterexample:
  "hasConfirmation confirmedScale \<and>
   \<not> dryRun (NewCLIExecutor (Some ()) False) \<and>
   SafetyReport.DryRunRecommended
     (Layer_Evaluate asciiOnly aws_ec2_scale confirmedScale ''staging'') \<and>
   \<not> hasForce confirmedScale \<and>
   Status (fst (Execute asciiOnly scaleHost (NewCLIExecutor (Some ()) False)
                  aws_ec2_scale confirmedScale ''staging'')) = StatusSuccess \<and>
   StatusSuccess \<noteq> StatusDryRun \<and>
   snd (Execute asciiOnly scaleHost (NewCLIExecutor (Some ()) False)
          aws_ec2_scale confirmedScale ''staging'') =
     [[''sh'', ''-c'', ''aws autoscaling update-auto-scaling-group --desired-capacity'']]"
  by code_simp

lemma unconfirmed_scale:
  "SafetyReport.RequiresConfirmation
     (Layer_Evaluate asciiOnly aws_ec2_scale unconfirmedScale ''staging'')"
  "unconfirmedScale ''_confirmed'' \<noteq> Some (VBool True)"
  by code_simp+

theorem confirmation_gate_witness:
  "safetyLayer (NewCLIExecutor (Some ()) False) = Some () \<and>
   SafetyReport.RequiresConfirmation
     (Layer_Evaluate asciiOnly aws_ec2_scale unconfirmedScale ''staging'') \<and>
   unconfirmedScale ''_confirmed'' \<noteq> Some (VBool True) \<and>
   Status (fst (Execute asciiOnly unconfirmedHost (NewCLIExecutor (Some ()) False)
                  aws_ec2_scale unconfirmedScale ''staging'')) = StatusPending \<and>
   Message (fst (Execute asciiOnly unconfirmedHost (NewCLIExecutor (Some ()) False)
                   aws_ec2_scale unconfirmedScale ''staging'')) =
     ''Action requires confirmation: '' @
     SafetyReport.ConfirmationPrompt
       (Layer_Evaluate asciiOnly aws_ec2_scale unconfirmedScale ''staging'') \<and>
   snd (Execute asciiOnly unconfirmedHost (NewCLIExecutor (Some ()) False)
          aws_ec2_scale unconfirmedScale ''staging'') = []"
proof -
  have layer: "safetyLayer (NewCLIExecutor (Some ()) False) = Some ()"
    by (simp add: NewCLIExecutor_def)
  from confirmation_gate [OF layer unconfirmed_scale, of unconfirmedHost]
    layer unconfirmed_scale
  show ?thesis by blast
qed

text \<open>
  The claim as first stated speaks of every executor. An executor built without a
  safety layer, \<open>NewCLIExecutor(nil, false)\<close>, skips the gate: for the same
  unconfirmed request, whose report requires confirmation, it runs the command.
\<close>

theorem confirmation_gate_nil_layer_counterexample:
  "SafetyReport.RequiresConfirmation
     (Layer_Evaluate asciiOnly aws_ec2_scale unconfirmedScale ''staging'') \<and>
   unconfirmedScale ''_confirmed'' \<noteq> Some (VBool True) \<and>
   Status (fst (Execute asciiOnly unconfirmedHost (NewCLIExecutor None False)
                  aws_ec2_scale unconfirmedScale ''staging'')) = StatusSuccess \<and>
   StatusSuccess \<noteq> StatusPending \<and>
   snd (Execute asciiOnly unconfirmedHost (NewCLIExecutor None False)
          aws_ec2_scale unconfirmedScale ''staging'') =
     [[''sh'', ''-c'', ''aws autoscaling update-auto-scaling-group --desired-capacity'']]"
  by code_simp

lemma sync_facts:
  "hasConfirmation confirmedSync"
  "interpolateCommand (rangeOrder syncHost 0) (Command (Skill.Execution argocd_sync))
     confirmedSync = ''argocd app sync web''"
  "interpolateCommand (rangeOrder syncHost 1) (Command (Skill.Execution argocd_sync))
     confirmedSync = ''argocd app sync web''"
  by code_simp+

theorem dry_run_gate_witness:
  "\<not> (safetyLayer (NewCLIExecutor (Some ()) True) \<noteq> None \<and>
      SafetyReport.RequiresConfirmation
        (Layer_Evaluate asciiOnly argocd_sync confirmedSync ''staging'') \<and>
      \<not> hasConfirmation confirmedSync) \<and>
   Status (fst (Execute asciiOnly syncHost (NewCLIExecutor (Some ()) True) argocd_sync
                  confirmedSync ''staging'')) = StatusDryRun \<and>
   snd (Execute asciiOnly syncHost (NewCLIExecutor (Some ()) True) argocd_sync
          confirmedSync ''staging'') = [] \<and>
   Output (fst (Execute asciiOnly syncHost (NewCLIExecutor (Some ()) True) argocd_sync
                  confirmedSync ''staging'')) ''command'' =
     Some (OutString ''argocd app sync web'') \<and>
   Message (fst (Execute asciiOnly syncHost (NewCLIExecutor (Some ()) True) argocd_sync
                   confirmedSync ''staging'')) =
     ''[DRY RUN] Would execute: argocd app sync web''"
proof -
  have pass: "\<not> (safetyLayer (NewCLIExecutor (Some ()) True) \<noteq> None \<and>
      SafetyReport.RequiresConfirmation
        (Layer_Evaluate asciiOnly argocd_sync confirmedSync ''staging'') \<and>
      \<not> hasConfirmation confirmedSync)"
    by (simp add: sync_facts)
  have dry: "dryRun (NewCLIExecutor (Some ()) True)"
    by (simp add: NewCLIExecutor_def)
  from dry_run_gate [OF pass, of syncHost] dry pass
  show ?thesis by (simp only: sync_facts) simp
qed

end
